theory Spec2Isabelle
  imports Complex_Main
begin

section \<open>InvoiceGuard: invoice validation and payment-state reconciliation\<close>

text \<open>
  A shallow embedding of \<^verbatim>\<open>utils/validation.py\<close>, of the processing functions of
  \<^verbatim>\<open>utils/invoice_helpers.py\<close>, of \<^verbatim>\<open>utils/payment_engine.py\<close> and of the batch
  functions of \<^verbatim>\<open>main.py\<close> (\<^verbatim>\<open>analyze_invoices\<close>, \<^verbatim>\<open>process_payments_and_past_due\<close>).

  A DataFrame with a fixed set of columns is a list of records, one per row, in row
  order. A numeric cell is a \<^typ>\<open>real option\<close>: \<open>None\<close> is pandas' missing value
  NaN, \<open>Some x\<close> the number the cell holds. A Python exception is a value of
  \<open>error\<close>, and a function that may raise returns \<open>error + 'a\<close>. What a function
  does to the outside world is returned with its result: the requests sent to the payment
  processor, the contents of the payment log file, the arguments mutated in place.

  The operations of pandas (\<^verbatim>\<open>merge\<close>, \<^verbatim>\<open>astype\<close>, \<^verbatim>\<open>to_datetime\<close>, boolean selection)
  are modelled from their documented behaviour. A cell \<^verbatim>\<open>order_id\<close> or
  \<^verbatim>\<open>customer_name\<close> of the validation report and of the payment log is a string, a number
  or the missing value, and two such cells are compared as pandas' \<^verbatim>\<open>==\<close> compares them.
  The payment log is read from its file by \<^verbatim>\<open>pd.read_csv\<close>, which infers the type of a
  column from the texts in it. A pass reads one date as today.
\<close>

subsection \<open>Values and errors\<close>

type_synonym num = "real option"

datatype error =
    PaymentInitiationFailed   \<comment> \<open>RuntimeError raised by \<^verbatim>\<open>trigger_payment\<close>\<close>
  | JustificationFailed       \<comment> \<open>RuntimeError raised by \<^verbatim>\<open>generate_payment_justification\<close>\<close>
  | DateParseError            \<comment> \<open>ValueError of \<^verbatim>\<open>pd.to_datetime(..., format=DATE_FORMAT)\<close>\<close>
  | IntCastError              \<comment> \<open>ValueError of \<^verbatim>\<open>astype(int)\<close>\<close>
  | MergeError                \<comment> \<open>\<^verbatim>\<open>pandas.errors.MergeError\<close> of \<^verbatim>\<open>validate='one_to_one'\<close>\<close>
  | JSONParseError            \<comment> \<open>ValueError raised by \<^verbatim>\<open>parse_invoice_with_genai\<close>\<close>
  | KeyError                  \<comment> \<open>a DataFrame has no column of the name asked for\<close>
  | ZeroDivisionError         \<comment> \<open>\<^verbatim>\<open>rotate_key\<close> on a client without API keys\<close>

text \<open>
  A cell of a column \<^verbatim>\<open>order_id\<close> or \<^verbatim>\<open>customer_name\<close>, as \<^verbatim>\<open>pd.read_csv\<close> delivers it:
  a string in a column of strings, a number in a numeric column, or the missing value NaN
  in either.
\<close>

datatype cell = Text string | Number real | Missing

text \<open>
  pandas' \<^verbatim>\<open>==\<close> on two such cells: two strings are equal when they are the same
  string, two numbers when they are the same number; a string and a number are not equal,
  and the missing value is equal to nothing, not even to itself.
\<close>

fun cell_eq :: "cell \<Rightarrow> cell \<Rightarrow> bool" where
  "cell_eq (Text a) (Text b) = (a = b)"
| "cell_eq (Number x) (Number y) = (x = y)"
| "cell_eq _ _ = False"

subsection \<open>The validation report and the payment log\<close>

text \<open>The columns of \<^verbatim>\<open>report_columns\<close>, in their order.\<close>

record report_row =
  file_name :: string
  invoice_number_inv :: int
  order_id :: cell
  customer_name :: cell
  due_date :: string
  ship_to :: string
  discount :: num
  shipping_cost :: num
  total :: num
  quantity_inv :: num
  quantity_po :: num
  rate_inv :: num
  rate_po :: num
  amount :: num
  expected_amount :: num
  validation_result :: string
  validation_status :: string

text \<open>The keys of the dictionary that \<^verbatim>\<open>create_payment_log_entry\<close> returns.\<close>

record payment_log_entry =
  log_order_id :: cell
  log_customer_name :: cell
  log_due_date :: string
  log_amount :: num
  log_transaction_id :: string
  log_status :: string
  log_timestamp :: string
  log_message :: string
  log_justification :: string
  log_payment_mode :: string

text \<open>
  The JSON payload of \<^verbatim>\<open>trigger_payment\<close>; the \<^verbatim>\<open>invoice_row\<close> dictionary handed to
  \<^verbatim>\<open>generate_payment_justification\<close> has the same four keys.
\<close>

record payload =
  req_order_id :: cell
  req_customer_name :: cell
  req_amount :: num
  req_due_date :: string

text \<open>The dictionary \<^verbatim>\<open>response.json()\<close> of the payment processor.\<close>

type_synonym response = "string \<rightharpoonup> string"

definition dict_get :: "response \<Rightarrow> string \<Rightarrow> string \<Rightarrow> string" where
  "dict_get d k dflt = (case d k of None \<Rightarrow> dflt | Some v \<Rightarrow> v)"

subsection \<open>The payment engine\<close>

text \<open>
  \<^verbatim>\<open>trigger_payment\<close>. The external processor is \<open>post\<close>: the answer to the
  \<open>n\<close>-th request of the run, \<open>None\<close> when \<^verbatim>\<open>requests.post\<close> or
  \<^verbatim>\<open>raise_for_status\<close> raises a \<^verbatim>\<open>RequestException\<close>. The function returns the
  request it has sent beside its outcome, so that callers can keep the trace of requests.
\<close>

definition trigger_payment ::
  "(nat \<Rightarrow> payload \<Rightarrow> response option) \<Rightarrow> nat \<Rightarrow> cell \<Rightarrow> cell \<Rightarrow> num \<Rightarrow> string
     \<Rightarrow> payload \<times> (error + response)" where
  "trigger_payment post n oid cust amt due =
     (let pl = \<lparr>req_order_id = oid, req_customer_name = cust, req_amount = amt, req_due_date = due\<rparr>
      in (pl, case post n pl of
                None \<Rightarrow> Inl PaymentInitiationFailed
              | Some r \<Rightarrow> Inr r))"

text \<open>
  \<^verbatim>\<open>generate_payment_justification\<close>. The language model is \<open>gen\<close>: the stripped text
  of its answer, \<open>None\<close> when \<^verbatim>\<open>generate_content\<close> returns \<^verbatim>\<open>None\<close>.
\<close>

definition generate_payment_justification ::
  "(nat \<Rightarrow> payload \<Rightarrow> string option) \<Rightarrow> nat \<Rightarrow> payload \<Rightarrow> error + string" where
  "generate_payment_justification gen n invoice_row =
     (case gen n invoice_row of
        None \<Rightarrow> Inl JustificationFailed
      | Some text \<Rightarrow> Inr text)"

subsection \<open>The payment state tracker\<close>

text \<open>
  \<^verbatim>\<open>create_payment_log_entry\<close>. \<open>now\<close> is what \<^verbatim>\<open>pd.Timestamp.now().isoformat()\<close>
  gives if it is read, \<open>n\<close> the number of requests sent before. In the branch other than
  \<^verbatim>\<open>'previous'\<close> the payment is triggered first, the justification is generated second,
  and either call may raise. The function returns the requests it has sent to the payment
  processor beside the entry or the exception.
\<close>

definition create_payment_log_entry ::
  "string \<Rightarrow> (nat \<Rightarrow> payload \<Rightarrow> response option) \<Rightarrow> (nat \<Rightarrow> payload \<Rightarrow> string option) \<Rightarrow> nat
     \<Rightarrow> report_row \<Rightarrow> string \<Rightarrow> payload list \<times> (error + payment_log_entry)" where
  "create_payment_log_entry now post gen n row transaction_type =
     (if transaction_type = ''previous''
      then ([],
            Inr \<lparr>log_order_id = order_id row,
                 log_customer_name = customer_name row,
                 log_due_date = due_date row,
                 log_amount = total row,
                 log_transaction_id = ''PREVIOUSLY_PAID'',
                 log_status = ''SUCCESS'',
                 log_timestamp = now,
                 log_message = ''Auto-paid earlier'',
                 log_justification = ''Previously paid for past due invoice'',
                 log_payment_mode = ''PreviouslyPaid''\<rparr>)
      else
        (case trigger_payment post n (order_id row) (customer_name row) (total row)
                (due_date row) of
           (request, Inl e) \<Rightarrow> ([request], Inl e)
         | (request, Inr payment_response) \<Rightarrow>
             (let invoice_row = \<lparr>req_order_id = order_id row,
                                 req_customer_name = customer_name row,
                                 req_amount = total row, req_due_date = due_date row\<rparr>
              in case generate_payment_justification gen n invoice_row of
                   Inl e \<Rightarrow> ([request], Inl e)
                 | Inr justification \<Rightarrow>
                     ([request],
                      Inr \<lparr>log_order_id = order_id row,
                           log_customer_name = customer_name row,
                           log_due_date = due_date row,
                           log_amount = total row,
                           log_transaction_id = dict_get payment_response ''transaction_id'' '''',
                           log_status = dict_get payment_response ''status'' '''',
                           log_timestamp = dict_get payment_response ''timestamp'' '''',
                           log_message = dict_get payment_response ''message'' '''',
                           log_justification = justification,
                           log_payment_mode = ''Auto''\<rparr>))))"

text \<open>
  The test \<^verbatim>\<open>not existing_log_df[(order_id == ...) & (customer_name == ...)].empty\<close>: the
  selection keeps the entries of the log whose two cells are \<^verbatim>\<open>==\<close> to those of the row.
\<close>

definition already_paid :: "payment_log_entry list \<Rightarrow> report_row \<Rightarrow> bool" where
  "already_paid existing_log row =
     (filter (\<lambda>e. cell_eq (log_order_id e) (order_id row)
                 \<and> cell_eq (log_customer_name e) (customer_name row))
        existing_log \<noteq> [])"

text \<open>
  \<^verbatim>\<open>pd.to_datetime(column, format=DATE_FORMAT).dt.strftime('%Y-%m-%d')\<close> over a whole
  column. The parser of one cell is the parameter \<open>strptime\<close> (\<open>None\<close>: the string
  does not conform to \<^verbatim>\<open>'%b %d %Y'\<close>); one such cell makes the call raise. The
  type \<open>'d\<close> stands for the \<^verbatim>\<open>'%Y-%m-%d'\<close> strings, which the source compares with
  \<^verbatim>\<open><\<close> and \<^verbatim>\<open>==\<close>: any linear order will do.
\<close>

fun to_datetime :: "(string \<Rightarrow> 'd option) \<Rightarrow> string list \<Rightarrow> error + 'd list" where
  "to_datetime strptime [] = Inr []"
| "to_datetime strptime (s # ss) =
     (case strptime s of
        None \<Rightarrow> Inl DateParseError
      | Some d \<Rightarrow>
          (case to_datetime strptime ss of
             Inl e \<Rightarrow> Inl e
           | Inr ds \<Rightarrow> Inr (d # ds)))"

text \<open>
  The loops of \<^verbatim>\<open>process_past_due_invoices\<close> and \<^verbatim>\<open>process_todays_invoices\<close> over the
  rows they select. The state of a loop is the list of requests sent to the payment
  processor so far and the entries collected so far; \<open>clock k\<close> is the time at the
  creation of the \<open>k\<close>-th entry of the call. An exception leaves the loop at once: the
  requests already sent stay sent, the entries are lost.
\<close>

fun past_due_loop ::
  "(nat \<Rightarrow> string) \<Rightarrow> (nat \<Rightarrow> payload \<Rightarrow> response option) \<Rightarrow> (nat \<Rightarrow> payload \<Rightarrow> string option)
     \<Rightarrow> payment_log_entry list \<Rightarrow> report_row list \<Rightarrow> payload list \<Rightarrow> payment_log_entry list
     \<Rightarrow> payload list \<times> (error + payment_log_entry list)" where
  "past_due_loop clock post gen existing_log [] sent payment_log_entries =
     (sent, Inr payment_log_entries)"
| "past_due_loop clock post gen existing_log (row # rows) sent payment_log_entries =
     (if \<not> already_paid existing_log row
      then
        (case create_payment_log_entry (clock (length payment_log_entries)) post gen
                (length sent) row ''previous'' of
           (requests, Inl e) \<Rightarrow> (sent @ requests, Inl e)
         | (requests, Inr entry) \<Rightarrow>
             past_due_loop clock post gen existing_log rows (sent @ requests)
               (payment_log_entries @ [entry]))
      else past_due_loop clock post gen existing_log rows sent payment_log_entries)"

definition process_past_due_invoices ::
  "(string \<Rightarrow> ('d::linorder) option) \<Rightarrow> 'd \<Rightarrow> (nat \<Rightarrow> string)
     \<Rightarrow> (nat \<Rightarrow> payload \<Rightarrow> response option) \<Rightarrow> (nat \<Rightarrow> payload \<Rightarrow> string option)
     \<Rightarrow> report_row list \<Rightarrow> payment_log_entry list
     \<Rightarrow> payload list \<times> (error + payment_log_entry list)" where
  "process_past_due_invoices strptime today clock post gen validation_report_df existing_log_df =
     (case to_datetime strptime (map due_date validation_report_df) of
        Inl e \<Rightarrow> ([], Inl e)
      | Inr dates \<Rightarrow>
          (let past_due_invoices =
                 map fst (filter (\<lambda>(row, d). d < today \<and> validation_status row = ''VALID'')
                            (zip validation_report_df dates))
           in past_due_loop clock post gen existing_log_df past_due_invoices [] []))"

fun todays_loop ::
  "(nat \<Rightarrow> string) \<Rightarrow> (nat \<Rightarrow> payload \<Rightarrow> response option) \<Rightarrow> (nat \<Rightarrow> payload \<Rightarrow> string option)
     \<Rightarrow> payment_log_entry list \<Rightarrow> report_row list \<Rightarrow> payload list \<Rightarrow> payment_log_entry list
     \<Rightarrow> payload list \<times> (error + payment_log_entry list)" where
  "todays_loop clock post gen existing_log [] sent payment_log_entries =
     (sent, Inr payment_log_entries)"
| "todays_loop clock post gen existing_log (row # rows) sent payment_log_entries =
     (if validation_status row = ''VALID'' \<and> \<not> already_paid existing_log row
      then
        (case create_payment_log_entry (clock (length payment_log_entries)) post gen
                (length sent) row ''auto'' of
           (requests, Inl e) \<Rightarrow> (sent @ requests, Inl e)
         | (requests, Inr entry) \<Rightarrow>
             todays_loop clock post gen existing_log rows (sent @ requests)
               (payment_log_entries @ [entry]))
      else todays_loop clock post gen existing_log rows sent payment_log_entries)"

definition process_todays_invoices ::
  "(string \<Rightarrow> ('d::linorder) option) \<Rightarrow> 'd \<Rightarrow> (nat \<Rightarrow> string)
     \<Rightarrow> (nat \<Rightarrow> payload \<Rightarrow> response option) \<Rightarrow> (nat \<Rightarrow> payload \<Rightarrow> string option)
     \<Rightarrow> report_row list \<Rightarrow> payment_log_entry list
     \<Rightarrow> payload list \<times> (error + payment_log_entry list)" where
  "process_todays_invoices strptime today clock post gen validation_report_df existing_log_df =
     (case to_datetime strptime (map due_date validation_report_df) of
        Inl e \<Rightarrow> ([], Inl e)
      | Inr dates \<Rightarrow>
          (let today_invoices =
                 map fst (filter (\<lambda>(row, d). d = today) (zip validation_report_df dates))
           in todays_loop clock post gen existing_log_df today_invoices [] []))"

subsection \<open>The payment log accumulator\<close>

text \<open>
  \<^verbatim>\<open>output/payment_log.csv\<close>: \<open>None\<close> while the file does not exist, otherwise the
  frame that \<^verbatim>\<open>to_csv\<close> has written, row by row.
\<close>

record store =
  payment_log_csv :: "payment_log_entry list option"

text \<open>
  The text that \<^verbatim>\<open>to_csv\<close> writes for a cell: the string itself, the decimal form of a
  number (the parameter \<open>render\<close>), nothing for the missing value.
\<close>

definition csv_text :: "(real \<Rightarrow> string) \<Rightarrow> cell \<Rightarrow> string" where
  "csv_text render c = (case c of Text s \<Rightarrow> s | Number x \<Rightarrow> render x | Missing \<Rightarrow> '''')"

text \<open>
  What \<^verbatim>\<open>pd.read_csv\<close> makes of one column of texts. The parameter \<open>scan\<close> reads one
  text on its own: \<open>Missing\<close> for the empty text and the other texts that pandas takes
  for a missing value, \<open>Number x\<close> for a text that is the number \<open>x\<close>, \<open>Text t\<close> for
  any other text \<open>t\<close>. A column in which every text is missing or a number becomes a
  numeric column; in any other column every text that is not missing stays the string it
  is. Columns of truth values are not told apart from columns of strings.
\<close>

definition read_csv_column :: "(string \<Rightarrow> cell) \<Rightarrow> string list \<Rightarrow> cell list" where
  "read_csv_column scan texts =
     (if list_all (\<lambda>t. case scan t of Text s \<Rightarrow> False | Number x \<Rightarrow> True | Missing \<Rightarrow> True) texts
      then map scan texts
      else map (\<lambda>t. case scan t of Text s \<Rightarrow> Text t | Number x \<Rightarrow> Text t | Missing \<Rightarrow> Missing)
             texts)"

text \<open>
  \<^verbatim>\<open>pd.read_csv\<close> of the payment log file: the columns \<^verbatim>\<open>order_id\<close> and
  \<^verbatim>\<open>customer_name\<close> are read from the texts written for them. The other columns, which the
  tracker does not read, are taken as they were written.
\<close>

definition read_csv_log ::
  "(string \<Rightarrow> cell) \<Rightarrow> (real \<Rightarrow> string) \<Rightarrow> payment_log_entry list \<Rightarrow> payment_log_entry list" where
  "read_csv_log scan render written =
     (let order_ids = read_csv_column scan (map (\<lambda>e. csv_text render (log_order_id e)) written);
          customer_names =
            read_csv_column scan (map (\<lambda>e. csv_text render (log_customer_name e)) written)
      in map (\<lambda>(e, oid, cust). e\<lparr>log_order_id := oid, log_customer_name := cust\<rparr>)
           (zip written (zip order_ids customer_names)))"

text \<open>\<^verbatim>\<open>load_existing_payment_log\<close>: an empty frame when the file does not exist.\<close>

definition load_existing_payment_log ::
  "(string \<Rightarrow> cell) \<Rightarrow> (real \<Rightarrow> string) \<Rightarrow> store \<Rightarrow> payment_log_entry list" where
  "load_existing_payment_log scan render st =
     (case payment_log_csv st of None \<Rightarrow> [] | Some written \<Rightarrow> read_csv_log scan render written)"

text \<open>
  \<^verbatim>\<open>process_payments_and_past_due\<close>. It returns the requests sent to the payment
  processor, the outcome and the store. No exception is caught: when one of the two
  tracker calls raises, \<^verbatim>\<open>to_csv\<close> is not reached and the store is as it was.
\<close>

definition process_payments_and_past_due ::
  "(string \<Rightarrow> ('d::linorder) option) \<Rightarrow> 'd \<Rightarrow> (nat \<Rightarrow> string)
     \<Rightarrow> (nat \<Rightarrow> payload \<Rightarrow> response option) \<Rightarrow> (nat \<Rightarrow> payload \<Rightarrow> string option)
     \<Rightarrow> (string \<Rightarrow> cell) \<Rightarrow> (real \<Rightarrow> string)
     \<Rightarrow> report_row list \<Rightarrow> store \<Rightarrow> payload list \<times> (error + unit) \<times> store" where
  "process_payments_and_past_due strptime today clock post gen scan render validation_report_df st =
     (let existing_log_df = load_existing_payment_log scan render st
      in case process_past_due_invoices strptime today clock post gen validation_report_df
                existing_log_df of
           (sent_past_due, Inl e) \<Rightarrow> (sent_past_due, Inl e, st)
         | (sent_past_due, Inr past_due_entries) \<Rightarrow>
             (case process_todays_invoices strptime today clock post gen validation_report_df
                     existing_log_df of
                (sent_today, Inl e) \<Rightarrow> (sent_past_due @ sent_today, Inl e, st)
              | (sent_today, Inr todays_entries) \<Rightarrow>
                  (let all_entries = past_due_entries @ todays_entries;
                       existing_log_df' =
                         (if all_entries \<noteq> []
                          then (if existing_log_df = [] then all_entries
                                else existing_log_df @ all_entries)
                          else existing_log_df)
                   in (sent_past_due @ sent_today, Inr (),
                       st\<lparr>payment_log_csv := Some existing_log_df'\<rparr>))))"

section \<open>Validation of invoices against purchase orders\<close>

subsection \<open>The two input frames\<close>

text \<open>
  A cell of an \<^verbatim>\<open>invoice_number\<close> column as \<^verbatim>\<open>pd.read_csv\<close> delivers it: an integer, a
  float or the missing value. \<^verbatim>\<open>astype(int)\<close> keeps an integer, truncates a float
  towards zero and raises on a missing value; it converts the whole column or raises.
  The integers are those of Python, unbounded: a number beyond the range of the 64-bit
  integers of numpy, which wraps or raises there, is outside this model. Columns of strings
  are left out.
\<close>

datatype pyval = PyInt int | PyFloat real | PyNaN

fun astype_int :: "pyval \<Rightarrow> error + int" where
  "astype_int (PyInt n) = Inr n"
| "astype_int (PyFloat x) = Inr (if 0 \<le> x then \<lfloor>x\<rfloor> else \<lceil>x\<rceil>)"
| "astype_int PyNaN = Inl IntCastError"

fun astype_int_column :: "pyval list \<Rightarrow> error + int list" where
  "astype_int_column [] = Inr []"
| "astype_int_column (v # vs) =
     (case astype_int v of
        Inl e \<Rightarrow> Inl e
      | Inr n \<Rightarrow>
          (case astype_int_column vs of
             Inl e \<Rightarrow> Inl e
           | Inr ns \<Rightarrow> Inr (n # ns)))"

text \<open>
  A row of \<^verbatim>\<open>output/invoices.csv\<close>: the keys of the dictionaries that
  \<^verbatim>\<open>analyze_invoices\<close> collects, one row per line item.
\<close>

record invoice_line =
  inv_invoice_number :: pyval
  inv_order_id :: string
  inv_customer_name :: string
  inv_due_date :: string
  inv_ship_to :: string
  inv_ship_mode :: string
  inv_subtotal :: num
  inv_discount :: num
  inv_shipping_cost :: num
  inv_total :: num
  inv_file_name :: string
  inv_item_name :: string
  inv_quantity :: num
  inv_rate :: num
  inv_amount :: num

text \<open>
  The invoices DataFrame: its rows, and the name that the column of invoice numbers
  bears. \<^verbatim>\<open>validate_invoices\<close> renames that column in place, and reads it under the name
  \<^verbatim>\<open>invoice_number\<close> first.
\<close>

record invoices_frame =
  number_column :: string
  lines :: "invoice_line list"

text \<open>A row of \<^verbatim>\<open>data/purchase_orders.csv\<close>.\<close>

record po_record =
  po_invoice_number :: pyval
  po_order_id :: string
  po_customer_name :: string
  po_quantity :: num
  po_rate :: num
  po_expected_amount :: num

subsection \<open>Comparison of numeric cells\<close>

text \<open>
  Python's \<^verbatim>\<open>!=\<close>, \<^verbatim>\<open>>\<close> and \<^verbatim>\<open><\<close> on two numbers, one of which may be NaN:
  \<^verbatim>\<open>!=\<close> is true and every order comparison false as soon as one side is NaN; otherwise
  the numbers are compared exactly.
\<close>

fun py_ne :: "num \<Rightarrow> num \<Rightarrow> bool" where
  "py_ne (Some x) (Some y) = (x \<noteq> y)"
| "py_ne _ _ = True"

fun py_gt :: "num \<Rightarrow> num \<Rightarrow> bool" where
  "py_gt (Some x) (Some y) = (x > y)"
| "py_gt _ _ = False"

fun py_lt :: "num \<Rightarrow> num \<Rightarrow> bool" where
  "py_lt (Some x) (Some y) = (x < y)"
| "py_lt _ _ = False"

definition isna :: "num \<Rightarrow> bool" where
  "isna v = (v = None)"

subsection \<open>The discrepancy classifier\<close>

text \<open>\<^verbatim>\<open>_check_missing_po\<close>.\<close>

definition check_missing_po :: "report_row \<Rightarrow> bool" where
  "check_missing_po row =
     (isna (quantity_po row) \<or> isna (rate_po row) \<or> isna (expected_amount row))"

text \<open>\<^verbatim>\<open>_get_validation_reasons\<close>: the list \<^verbatim>\<open>reasons\<close> after each statement.\<close>

definition get_validation_reasons :: "report_row \<Rightarrow> string list" where
  "get_validation_reasons row =
     (let reasons0 = [];
          reasons1 = (if py_ne (quantity_inv row) (quantity_po row)
                      then reasons0 @ [''Quantity Mismatch''] else reasons0);
          reasons2 = (if py_ne (rate_inv row) (rate_po row)
                      then reasons1 @ [''Rate Mismatch''] else reasons1);
          reasons3 = (if py_gt (amount row) (expected_amount row)
                      then reasons2 @ [''Overbilling'']
                      else if py_lt (amount row) (expected_amount row)
                      then reasons2 @ [''Amount Mismatch''] else reasons2)
      in reasons3)"

text \<open>\<^verbatim>\<open>sep.join(xs)\<close>.\<close>

fun join_str :: "string \<Rightarrow> string list \<Rightarrow> string" where
  "join_str sep [] = []"
| "join_str sep [x] = x"
| "join_str sep (x # y # ys) = x @ sep @ join_str sep (y # ys)"

text \<open>The body of the loop of \<^verbatim>\<open>validate_invoices\<close> over the merged rows.\<close>

definition validate_row :: "report_row \<Rightarrow> report_row" where
  "validate_row row =
     (let reasons = (if check_missing_po row then [] @ [''Missing PO'']
                     else get_validation_reasons row)
      in if reasons \<noteq> []
         then row\<lparr>validation_result := join_str '', '' reasons, validation_status := ''INVALID''\<rparr>
         else row\<lparr>validation_result := ''Match''\<rparr>)"

subsection \<open>The matcher\<close>

text \<open>
  A row of \<^verbatim>\<open>merged_df\<close>, with the two columns that \<^verbatim>\<open>validate_invoices\<close> initialises
  before its loop. The columns \<^verbatim>\<open>quantity\<close> and \<^verbatim>\<open>rate\<close> exist on both sides and get the
  suffixes \<^verbatim>\<open>_inv\<close> and \<^verbatim>\<open>_po\<close>; the columns of the purchase order are missing values when
  no purchase order matched. The columns that the report does not select
  (\<^verbatim>\<open>ship_mode\<close>, \<^verbatim>\<open>subtotal\<close>, \<^verbatim>\<open>item_name\<close> and the \<^verbatim>\<open>invoice_number\<close> of the purchase
  order) are not carried. The columns \<^verbatim>\<open>order_id\<close> and \<^verbatim>\<open>customer_name\<close> of the two
  frames hold strings, and the report carries them as cells of text.
\<close>

definition merged_row :: "invoice_line \<Rightarrow> int \<Rightarrow> po_record option \<Rightarrow> report_row" where
  "merged_row l n match =
     \<lparr>file_name = inv_file_name l,
      invoice_number_inv = n,
      order_id = Text (inv_order_id l),
      customer_name = Text (inv_customer_name l),
      due_date = inv_due_date l,
      ship_to = inv_ship_to l,
      discount = inv_discount l,
      shipping_cost = inv_shipping_cost l,
      total = inv_total l,
      quantity_inv = inv_quantity l,
      quantity_po = (case match of None \<Rightarrow> None | Some p \<Rightarrow> po_quantity p),
      rate_inv = inv_rate l,
      rate_po = (case match of None \<Rightarrow> None | Some p \<Rightarrow> po_rate p),
      amount = inv_amount l,
      expected_amount = (case match of None \<Rightarrow> None | Some p \<Rightarrow> po_expected_amount p),
      validation_result = '''',
      validation_status = ''VALID''\<rparr>"

text \<open>The join keys of a row of either frame, once its invoice number is an integer.\<close>

definition left_key :: "invoice_line \<times> int \<Rightarrow> int \<times> string \<times> string" where
  "left_key lrow = (snd lrow, inv_order_id (fst lrow), inv_customer_name (fst lrow))"

definition right_key :: "po_record \<times> int \<Rightarrow> int \<times> string \<times> string" where
  "right_key prow = (snd prow, po_order_id (fst prow), po_customer_name (fst prow))"

text \<open>
  \<^verbatim>\<open>pd.merge(..., how='left', validate='one_to_one')\<close>. The check of \<^verbatim>\<open>validate\<close> comes
  first: the keys must be unique in the left frame and in the right frame, whether they
  match or not. The left join then keeps the rows of the left frame in their order, each
  once per matching row of the right frame, and once with missing values when there is
  none.
\<close>

definition merge_left_one_to_one ::
  "(invoice_line \<times> int) list \<Rightarrow> (po_record \<times> int) list \<Rightarrow> error + report_row list" where
  "merge_left_one_to_one left right =
     (if \<not> distinct (map left_key left) \<or> \<not> distinct (map right_key right)
      then Inl MergeError
      else Inr (concat (map (\<lambda>lrow.
                  case filter (\<lambda>prow. right_key prow = left_key lrow) right of
                    [] \<Rightarrow> [merged_row (fst lrow) (snd lrow) None]
                  | matches \<Rightarrow> map (\<lambda>prow. merged_row (fst lrow) (snd lrow) (Some (fst prow))) matches)
                  left)))"

text \<open>
  The assignment \<^verbatim>\<open>df['invoice_number'] = ...\<close> of a column of integers of the frame's
  length, for either frame: every row gets its new cell, the other cells stay.
\<close>

definition assign_inv_number :: "invoice_line list \<Rightarrow> int list \<Rightarrow> invoice_line list" where
  "assign_inv_number rows ns = map (\<lambda>(l, n). l\<lparr>inv_invoice_number := PyInt n\<rparr>) (zip rows ns)"

definition assign_po_number :: "po_record list \<Rightarrow> int list \<Rightarrow> po_record list" where
  "assign_po_number rows ms = map (\<lambda>(p, m). p\<lparr>po_invoice_number := PyInt m\<rparr>) (zip rows ms)"

text \<open>
  \<^verbatim>\<open>validate_invoices\<close>. Both arguments are mutated in place, so the function returns
  them, as the caller finds them afterwards, beside the report or the exception.
\<close>

definition validate_invoices ::
  "invoices_frame \<Rightarrow> po_record list
     \<Rightarrow> (invoices_frame \<times> po_record list) \<times> (error + report_row list)" where
  "validate_invoices invoices_df po_df =
     (if number_column invoices_df \<noteq> ''invoice_number''
      then ((invoices_df, po_df), Inl KeyError)
      else case astype_int_column (map inv_invoice_number (lines invoices_df)) of
        Inl e \<Rightarrow> ((invoices_df, po_df), Inl e)
      | Inr ns \<Rightarrow>
          (let invoices_df1 = invoices_df\<lparr>lines := assign_inv_number (lines invoices_df) ns\<rparr>
           in case astype_int_column (map po_invoice_number po_df) of
                Inl e \<Rightarrow> ((invoices_df1, po_df), Inl e)
              | Inr ms \<Rightarrow>
                  (let po_df1 = assign_po_number po_df ms;
                       invoices_df2 = invoices_df1\<lparr>number_column := ''invoice_number_inv''\<rparr>
                   in case merge_left_one_to_one (zip (lines invoices_df2) ns) (zip po_df1 ms) of
                        Inl e \<Rightarrow> ((invoices_df2, po_df1), Inl e)
                      | Inr merged_df \<Rightarrow>
                          ((invoices_df2, po_df1), Inr (map validate_row merged_df)))))"

section \<open>Batch extraction of invoices\<close>

subsection \<open>The extraction client\<close>

text \<open>
  \<^verbatim>\<open>GeminiMultiKeyClient\<close>: the API keys and the index of the current key. The client
  is shared by all calls of a run, so its state is threaded through them together with
  the number of requests made so far. The remote model is the parameter \<open>service\<close>: the
  answer to the \<open>k\<close>-th request, made with a key and a prompt, or \<open>None\<close> when the
  request raises.
\<close>

record client =
  api_keys :: "string list"
  current_key_index :: nat

type_synonym service = "nat \<Rightarrow> string \<Rightarrow> string \<Rightarrow> string option"

text \<open>\<^verbatim>\<open>rotate_key\<close>; the modulus is zero for a client without keys.\<close>

definition rotate_key :: "client \<Rightarrow> error + client" where
  "rotate_key c =
     (if length (api_keys c) = 0 then Inl ZeroDivisionError
      else Inr (c\<lparr>current_key_index := (current_key_index c + 1) mod length (api_keys c)\<rparr>))"

text \<open>
  \<^verbatim>\<open>generate_content\<close>: at most \<open>max_retries\<close> attempts. An attempt that raises (an
  index outside \<^verbatim>\<open>api_keys\<close> raises as well) rotates the key and is followed by the next
  attempt; when no attempt is left the function returns \<^verbatim>\<open>None\<close>. An exception of
  \<^verbatim>\<open>rotate_key\<close> is raised inside the handler and leaves the function.
\<close>

fun generate_content ::
  "service \<Rightarrow> string \<Rightarrow> nat \<Rightarrow> client \<times> nat \<Rightarrow> (client \<times> nat) \<times> (error + string option)" where
  "generate_content service prompt 0 (c, k) = ((c, k), Inr None)"
| "generate_content service prompt (Suc max_retries) (c, k) =
     (case (if current_key_index c < length (api_keys c)
            then service k (api_keys c ! current_key_index c) prompt
            else None) of
        Some text \<Rightarrow> ((c, Suc k), Inr (Some text))
      | None \<Rightarrow>
          (case rotate_key c of
             Inl e \<Rightarrow> ((c, Suc k), Inl e)
           | Inr c' \<Rightarrow> generate_content service prompt max_retries (c', Suc k)))"

subsection \<open>Parsed invoices\<close>

text \<open>
  An element of \<^verbatim>\<open>item_details\<close>. A key may be absent from the dictionary (\<open>None\<close>);
  \<^verbatim>\<open>item.get\<close> then supplies the default.
\<close>

record item_detail =
  it_item_name :: "string option"
  it_quantity :: "num option"
  it_rate :: "num option"
  it_amount :: "num option"

text \<open>
  The dictionary that \<^verbatim>\<open>parse_invoice_with_genai\<close> returns, with the keys of its prompt.
  The cells are taken as \<^verbatim>\<open>pd.read_csv\<close> reads them back from \<^verbatim>\<open>output/invoices.csv\<close>.
  The key \<^verbatim>\<open>item_details\<close> may be absent.
\<close>

record parsed_invoice =
  pi_invoice_number :: pyval
  pi_order_id :: string
  pi_customer_name :: string
  pi_due_date :: string
  pi_ship_to :: string
  pi_ship_mode :: string
  pi_subtotal :: num
  pi_discount :: num
  pi_shipping_cost :: num
  pi_total :: num
  pi_item_details :: "item_detail list option"

text \<open>
  \<^verbatim>\<open>parse_invoice_with_genai\<close>, with three attempts (the default of \<^verbatim>\<open>max_retries\<close>).
  The prompt is a fixed template around the invoice text, so the service is asked with
  the text. \<open>decode\<close> stands for the removal of the code fences and \<^verbatim>\<open>json.loads\<close>:
  \<open>None\<close> when the answer is not JSON.
\<close>

definition parse_invoice_with_genai ::
  "service \<Rightarrow> (string \<Rightarrow> parsed_invoice option) \<Rightarrow> client \<times> nat \<Rightarrow> string
     \<Rightarrow> (client \<times> nat) \<times> (error + parsed_invoice option)" where
  "parse_invoice_with_genai service decode st text =
     (case generate_content service text 3 st of
        (st', Inl e) \<Rightarrow> (st', Inl e)
      | (st', Inr None) \<Rightarrow> (st', Inr None)
      | (st', Inr (Some response_text)) \<Rightarrow>
          (case decode response_text of
             None \<Rightarrow> (st', Inl JSONParseError)
           | Some invoice_data \<Rightarrow> (st', Inr (Some invoice_data))))"

subsection \<open>The batch loop\<close>

text \<open>\<^verbatim>\<open>s.endswith(suffix)\<close>.\<close>

definition endswith :: "string \<Rightarrow> string \<Rightarrow> bool" where
  "endswith s suffix = (length suffix \<le> length s \<and> drop (length s - length suffix) s = suffix)"

text \<open>\<^verbatim>\<open>os.path.join\<close> of a folder and the name of one of its files.\<close>

definition os_path_join :: "string \<Rightarrow> string \<Rightarrow> string" where
  "os_path_join folder name =
     (if name \<noteq> [] \<and> hd name = CHR ''/'' then name
      else if folder = [] \<or> last folder = CHR ''/'' then folder @ name
      else folder @ ''/'' @ name)"

text \<open>\<^verbatim>\<open>d.get(key, default)\<close> for a key that may be absent.\<close>

definition get_default :: "'a option \<Rightarrow> 'a \<Rightarrow> 'a" where
  "get_default v dflt = (case v of None \<Rightarrow> dflt | Some x \<Rightarrow> x)"

text \<open>The row that the inner loop of \<^verbatim>\<open>analyze_invoices\<close> appends for one item.\<close>

definition invoice_copy :: "string \<Rightarrow> parsed_invoice \<Rightarrow> item_detail \<Rightarrow> invoice_line" where
  "invoice_copy pdf_file parsed item =
     \<lparr>inv_invoice_number = pi_invoice_number parsed,
      inv_order_id = pi_order_id parsed,
      inv_customer_name = pi_customer_name parsed,
      inv_due_date = pi_due_date parsed,
      inv_ship_to = pi_ship_to parsed,
      inv_ship_mode = pi_ship_mode parsed,
      inv_subtotal = pi_subtotal parsed,
      inv_discount = pi_discount parsed,
      inv_shipping_cost = pi_shipping_cost parsed,
      inv_total = pi_total parsed,
      inv_file_name = pdf_file,
      inv_item_name = get_default (it_item_name item) '''',
      inv_quantity = get_default (it_quantity item) (Some 0),
      inv_rate = get_default (it_rate item) (Some 0),
      inv_amount = get_default (it_amount item) (Some 0)\<rparr>"

text \<open>The inner loop: one row per element of \<^verbatim>\<open>item_details\<close>, none when the key is absent.\<close>

definition flatten_items :: "string \<Rightarrow> parsed_invoice \<Rightarrow> invoice_line list" where
  "flatten_items pdf_file parsed =
     map (invoice_copy pdf_file parsed) (get_default (pi_item_details parsed) [])"

text \<open>
  The loop of \<^verbatim>\<open>analyze_invoices\<close> over \<^verbatim>\<open>os.listdir(pdf_folder)\<close>. \<open>extract_raw_text\<close>
  is the text of the PDF at a path. When the parser returns \<^verbatim>\<open>None\<close> the loop is left
  with \<^verbatim>\<open>break\<close>; an exception of the parser leaves the function.
\<close>

fun analyze_loop ::
  "service \<Rightarrow> (string \<Rightarrow> parsed_invoice option) \<Rightarrow> (string \<Rightarrow> string) \<Rightarrow> string \<Rightarrow> string list
     \<Rightarrow> client \<times> nat \<Rightarrow> invoice_line list \<Rightarrow> (client \<times> nat) \<times> (error + invoice_line list)" where
  "analyze_loop service decode extract_raw_text pdf_folder [] st parsed_invoices =
     (st, Inr parsed_invoices)"
| "analyze_loop service decode extract_raw_text pdf_folder (pdf_file # files) st parsed_invoices =
     (if endswith pdf_file ''.pdf''
      then
        (let file_path = os_path_join pdf_folder pdf_file;
             raw_text = extract_raw_text file_path
         in case parse_invoice_with_genai service decode st raw_text of
              (st', Inl e) \<Rightarrow> (st', Inl e)
            | (st', Inr None) \<Rightarrow> (st', Inr parsed_invoices)
            | (st', Inr (Some parsed_invoice)) \<Rightarrow>
                analyze_loop service decode extract_raw_text pdf_folder files st'
                  (parsed_invoices @ flatten_items pdf_file parsed_invoice))
      else analyze_loop service decode extract_raw_text pdf_folder files st parsed_invoices)"

text \<open>
  \<^verbatim>\<open>analyze_invoices\<close>: the rows written to \<^verbatim>\<open>output/invoices.csv\<close>, or the exception.
  \<open>listdir\<close> is \<^verbatim>\<open>os.listdir(pdf_folder)\<close>.
\<close>

definition analyze_invoices ::
  "service \<Rightarrow> (string \<Rightarrow> parsed_invoice option) \<Rightarrow> (string \<Rightarrow> string) \<Rightarrow> string \<Rightarrow> string list
     \<Rightarrow> client \<times> nat \<Rightarrow> (client \<times> nat) \<times> (error + invoice_line list)" where
  "analyze_invoices service decode extract_raw_text pdf_folder listdir st =
     analyze_loop service decode extract_raw_text pdf_folder listdir st []"

section \<open>Notions used to state the properties\<close>

text \<open>
  The identity by which the tracker recognises a logged payment: the pair
  (\<^verbatim>\<open>order_id\<close>, \<^verbatim>\<open>customer_name\<close>), of a log entry and of a report row.
\<close>

definition log_identity :: "payment_log_entry \<Rightarrow> cell \<times> cell" where
  "log_identity e = (log_order_id e, log_customer_name e)"

definition row_identity :: "report_row \<Rightarrow> cell \<times> cell" where
  "row_identity row = (order_id row, customer_name row)"

text \<open>
  Two identities are shared when the tracker's test takes them for the same: the order
  ids are \<^verbatim>\<open>==\<close> and the customer names are \<^verbatim>\<open>==\<close>.
\<close>

definition same_identity :: "cell \<times> cell \<Rightarrow> cell \<times> cell \<Rightarrow> bool" where
  "same_identity i j = (cell_eq (fst i) (fst j) \<and> cell_eq (snd i) (snd j))"

text \<open>An identity is present when neither of its two cells is the missing value.\<close>

definition identity_present :: "cell \<times> cell \<Rightarrow> bool" where
  "identity_present i = (fst i \<noteq> Missing \<and> snd i \<noteq> Missing)"


text \<open>The request that \<^verbatim>\<open>trigger_payment\<close> sends for a report row.\<close>

definition payload_of :: "report_row \<Rightarrow> payload" where
  "payload_of row = \<lparr>req_order_id = order_id row, req_customer_name = customer_name row,
                      req_amount = total row, req_due_date = due_date row\<rparr>"

text \<open>The entry of the \<^verbatim>\<open>'previous'\<close> branch of \<^verbatim>\<open>create_payment_log_entry\<close> for a row.\<close>

definition previous_entry :: "string \<Rightarrow> report_row \<Rightarrow> payment_log_entry" where
  "previous_entry now row =
     \<lparr>log_order_id = order_id row,
      log_customer_name = customer_name row,
      log_due_date = due_date row,
      log_amount = total row,
      log_transaction_id = ''PREVIOUSLY_PAID'',
      log_status = ''SUCCESS'',
      log_timestamp = now,
      log_message = ''Auto-paid earlier'',
      log_justification = ''Previously paid for past due invoice'',
      log_payment_mode = ''PreviouslyPaid''\<rparr>"

text \<open>A VALID row whose due date is strictly before today and whose identity is not in the log.\<close>

definition past_due_unlogged ::
  "(string \<Rightarrow> ('d::linorder) option) \<Rightarrow> 'd \<Rightarrow> payment_log_entry list \<Rightarrow> report_row \<Rightarrow> bool" where
  "past_due_unlogged strptime today existing_log row =
     (case strptime (due_date row) of
        None \<Rightarrow> False
      | Some d \<Rightarrow> d < today \<and> validation_status row = ''VALID'' \<and> \<not> already_paid existing_log row)"




text \<open>
  An invoice line and a purchase order have the same join key: the same invoice number
  once both are integers, the same order id and the same customer name.
\<close>

definition key_match :: "invoice_line \<Rightarrow> po_record \<Rightarrow> bool" where
  "key_match l p =
     (astype_int (po_invoice_number p) = astype_int (inv_invoice_number l)
      \<and> po_order_id p = inv_order_id l \<and> po_customer_name p = inv_customer_name l)"

text \<open>The purchase order joined to a left row: the first row of the right frame with its key.\<close>

definition matched_po :: "(po_record \<times> int) list \<Rightarrow> invoice_line \<times> int \<Rightarrow> po_record option" where
  "matched_po right lrow = map_option fst (find (\<lambda>prow. right_key prow = left_key lrow) right)"

text \<open>
  The reasons of a joined row in the words of the specification: \<^verbatim>\<open>Missing PO\<close> alone when
  a purchase-order cell is missing; otherwise \<^verbatim>\<open>Quantity Mismatch\<close> when the quantities
  differ, then \<^verbatim>\<open>Rate Mismatch\<close> when the rates differ, then \<^verbatim>\<open>Overbilling\<close> when the
  amount exceeds the expected amount or else \<^verbatim>\<open>Amount Mismatch\<close> when it is below it. The
  numbers are compared exactly; a missing invoice-side quantity or rate differs from every
  number, and a missing amount is neither above nor below one.
\<close>

definition spec_reasons :: "report_row \<Rightarrow> string list" where
  "spec_reasons row =
     (case (quantity_po row, rate_po row, expected_amount row) of
        (Some qp, Some rp, Some ea) \<Rightarrow>
          (if quantity_inv row \<noteq> Some qp then [''Quantity Mismatch''] else [])
          @ (if rate_inv row \<noteq> Some rp then [''Rate Mismatch''] else [])
          @ (case amount row of
               None \<Rightarrow> []
             | Some a \<Rightarrow> if a > ea then [''Overbilling'']
                        else if a < ea then [''Amount Mismatch''] else [])
      | _ \<Rightarrow> [''Missing PO''])"

text \<open>The keys on which the merge is validated, read off the frames as they are passed.\<close>

definition invoice_keys :: "invoice_line list \<Rightarrow> ((error + int) \<times> string \<times> string) list" where
  "invoice_keys rows =
     map (\<lambda>l. (astype_int (inv_invoice_number l), inv_order_id l, inv_customer_name l)) rows"

definition po_keys :: "po_record list \<Rightarrow> ((error + int) \<times> string \<times> string) list" where
  "po_keys rows =
     map (\<lambda>p. (astype_int (po_invoice_number p), po_order_id p, po_customer_name p)) rows"

text \<open>
  Every PDF of a list is extracted: the rows collected and the state of the client after
  the last file, or \<open>None\<close> when the parser did not return an invoice for one of them.
\<close>

fun extracted_rows ::
  "service \<Rightarrow> (string \<Rightarrow> parsed_invoice option) \<Rightarrow> (string \<Rightarrow> string) \<Rightarrow> string \<Rightarrow> string list
     \<Rightarrow> client \<times> nat \<Rightarrow> invoice_line list \<Rightarrow> ((client \<times> nat) \<times> invoice_line list) option" where
  "extracted_rows service decode extract_raw_text pdf_folder [] st rows = Some (st, rows)"
| "extracted_rows service decode extract_raw_text pdf_folder (pdf_file # files) st rows =
     (if endswith pdf_file ''.pdf''
      then (case parse_invoice_with_genai service decode st
                    (extract_raw_text (os_path_join pdf_folder pdf_file)) of
              (st', Inr (Some parsed_invoice)) \<Rightarrow>
                extracted_rows service decode extract_raw_text pdf_folder files st'
                  (rows @ flatten_items pdf_file parsed_invoice)
            | _ \<Rightarrow> None)
      else extracted_rows service decode extract_raw_text pdf_folder files st rows)"

section \<open>Concrete inputs\<close>

text \<open>
  A parser for the usual shape of a \<^verbatim>\<open>'%b %d %Y'\<close> date, such as \<^verbatim>\<open>Jan 05 2025\<close>: an
  English month abbreviation, a two-digit day and a four-digit year, separated by one
  space. The date is returned as the number \<open>yyyymmdd\<close>, which is ordered as the
  string \<^verbatim>\<open>yyyy-mm-dd\<close> is. It serves to run the definitions on concrete reports; the
  theorems below hold for every parser.
\<close>

definition digit_of :: "char \<Rightarrow> nat option" where
  "digit_of c =
     (let n = (of_char c :: nat) in if 48 \<le> n \<and> n \<le> 57 then Some (n - 48) else None)"

fun digits_value :: "nat \<Rightarrow> string \<Rightarrow> nat option" where
  "digits_value acc [] = Some acc"
| "digits_value acc (c # cs) =
     (case digit_of c of None \<Rightarrow> None | Some v \<Rightarrow> digits_value (10 * acc + v) cs)"

definition month_of :: "string \<Rightarrow> nat option" where
  "month_of s =
     (if s = ''Jan'' then Some 1 else if s = ''Feb'' then Some 2 else if s = ''Mar'' then Some 3
      else if s = ''Apr'' then Some 4 else if s = ''May'' then Some 5 else if s = ''Jun'' then Some 6
      else if s = ''Jul'' then Some 7 else if s = ''Aug'' then Some 8 else if s = ''Sep'' then Some 9
      else if s = ''Oct'' then Some 10 else if s = ''Nov'' then Some 11
      else if s = ''Dec'' then Some 12 else None)"

definition days_in_month :: "nat \<Rightarrow> nat \<Rightarrow> nat" where
  "days_in_month y m =
     (if m = 2 then (if y mod 4 = 0 \<and> (y mod 100 \<noteq> 0 \<or> y mod 400 = 0) then 29 else 28)
      else if m = 4 \<or> m = 6 \<or> m = 9 \<or> m = 11 then 30 else 31)"

definition strptime_b_d_Y :: "string \<Rightarrow> nat option" where
  "strptime_b_d_Y s =
     (if length s = 11 \<and> s ! 3 = CHR '' '' \<and> s ! 6 = CHR '' ''
      then (case (month_of (take 3 s), digits_value 0 (take 2 (drop 4 s)),
                  digits_value 0 (drop 7 s)) of
              (Some m, Some d, Some y) \<Rightarrow>
                 (if 1 \<le> d \<and> d \<le> days_in_month y m then Some (y * 10000 + m * 100 + d)
                  else None)
            | _ \<Rightarrow> None)
      else None)"

text \<open>A report row of a matched invoice line, with the given key, due date and status.\<close>

definition sample_row :: "int \<Rightarrow> string \<Rightarrow> string \<Rightarrow> string \<Rightarrow> string \<Rightarrow> string \<Rightarrow> report_row" where
  "sample_row number oid cust due result status =
     \<lparr>file_name = ''invoice.pdf'', invoice_number_inv = number, order_id = Text oid,
      customer_name = Text cust, due_date = due, ship_to = ''Paris, France'', discount = Some 0,
      shipping_cost = Some 10, total = Some 110, quantity_inv = Some 2, quantity_po = Some 2,
      rate_inv = Some 50, rate_po = Some 50, amount = Some 100, expected_amount = Some 100,
      validation_result = result, validation_status = status\<rparr>"

text \<open>
  A report read on January 10, 2025: one VALID row past due, one VALID row due today, one
  VALID row due later and one INVALID row past due.
\<close>

definition sample_today :: nat where
  "sample_today = 20250110"

definition row_past_due :: report_row where
  "row_past_due = sample_row 1001 ''CA-1'' ''Acme'' ''Jan 05 2025'' ''Match'' ''VALID''"

definition row_due_today :: report_row where
  "row_due_today = sample_row 1002 ''CA-2'' ''Bolt'' ''Jan 10 2025'' ''Match'' ''VALID''"

definition row_due_later :: report_row where
  "row_due_later = sample_row 1003 ''CA-3'' ''Core'' ''Feb 01 2025'' ''Match'' ''VALID''"

definition row_invalid :: report_row where
  "row_invalid = sample_row 1004 ''CA-4'' ''Dune'' ''Jan 02 2025'' ''Overbilling'' ''INVALID''"

definition sample_report :: "report_row list" where
  "sample_report = [row_past_due, row_due_today, row_due_later, row_invalid]"

text \<open>Two invoices of the same order and customer, both VALID and past due.\<close>

definition row_first_invoice :: report_row where
  "row_first_invoice = sample_row 2001 ''CA-7'' ''Acme'' ''Jan 05 2025'' ''Match'' ''VALID''"

definition row_second_invoice :: report_row where
  "row_second_invoice = sample_row 2002 ''CA-7'' ''Acme'' ''Jan 06 2025'' ''Match'' ''VALID''"

definition same_order_report :: "report_row list" where
  "same_order_report = [row_first_invoice, row_second_invoice]"

text \<open>A clock that stands still during the pass.\<close>

definition sample_now :: string where
  "sample_now = ''2025-01-10T09:00:00''"

definition sample_clock :: "nat \<Rightarrow> string" where
  "sample_clock k = sample_now"

text \<open>A payment processor that accepts every request, and one that refuses every request.\<close>

definition accepting_post :: "nat \<Rightarrow> payload \<Rightarrow> response option" where
  "accepting_post n request =
     Some [''transaction_id'' \<mapsto> ''TXN-10001'', ''status'' \<mapsto> ''SUCCESS'',
           ''timestamp'' \<mapsto> ''2025-01-10T09:00:01'', ''message'' \<mapsto> ''Payment triggered'']"

definition refusing_post :: "nat \<Rightarrow> payload \<Rightarrow> response option" where
  "refusing_post n request = None"

definition sample_gen :: "nat \<Rightarrow> payload \<Rightarrow> string option" where
  "sample_gen n invoice_row = Some ''Payment approved.''"

text \<open>The entry of the accepted payment of the row due today.\<close>

definition entry_due_today :: payment_log_entry where
  "entry_due_today =
     \<lparr>log_order_id = Text ''CA-2'', log_customer_name = Text ''Bolt'',
      log_due_date = ''Jan 10 2025'', log_amount = Some 110, log_transaction_id = ''TXN-10001'', log_status = ''SUCCESS'',
      log_timestamp = ''2025-01-10T09:00:01'', log_message = ''Payment triggered'',
      log_justification = ''Payment approved.'', log_payment_mode = ''Auto''\<rparr>"

text \<open>
  A VALID past-due row whose customer name is missing; and a VALID row due today whose
  order id is the string \<^verbatim>\<open>007\<close>, in a report whose other order id keeps the column a
  column of strings.
\<close>

definition row_no_customer :: report_row where
  "row_no_customer =
     (sample_row 1005 ''CA-5'' '''' ''Jan 05 2025'' ''Match'' ''VALID'')\<lparr>customer_name := Missing\<rparr>"

definition no_customer_report :: "report_row list" where
  "no_customer_report = [row_no_customer]"

definition row_leading_zeros :: report_row where
  "row_leading_zeros = sample_row 1007 ''007'' ''Bolt'' ''Jan 10 2025'' ''Match'' ''VALID''"

definition leading_zeros_report :: "report_row list" where
  "leading_zeros_report = [row_leading_zeros, row_due_later]"

text \<open>The entry of the accepted payment of the row of order id \<^verbatim>\<open>007\<close>.\<close>

definition entry_leading_zeros :: payment_log_entry where
  "entry_leading_zeros =
     \<lparr>log_order_id = Text ''007'', log_customer_name = Text ''Bolt'',
      log_due_date = ''Jan 10 2025'', log_amount = Some 110,
      log_transaction_id = ''TXN-10001'', log_status = ''SUCCESS'',
      log_timestamp = ''2025-01-10T09:00:01'', log_message = ''Payment triggered'',
      log_justification = ''Payment approved.'', log_payment_mode = ''Auto''\<rparr>"

text \<open>
  The texts of a file as \<^verbatim>\<open>pd.read_csv\<close> reads them, for the texts of these samples: the
  empty text is a missing value, a text of decimal digits is the number it writes, any
  other text is a string. And the decimal digits that \<^verbatim>\<open>to_csv\<close> writes for a whole
  number that is not negative.
\<close>

definition sample_scan :: "string \<Rightarrow> cell" where
  "sample_scan t =
     (if t = '''' then Missing
      else case digits_value 0 t of None \<Rightarrow> Text t | Some n \<Rightarrow> Number (real n))"

function digits_of :: "nat \<Rightarrow> string" where
  "digits_of n =
     (if n < 10 then [char_of (48 + n)]
      else digits_of (n div 10) @ [char_of (48 + n mod 10)])"
  by pat_completeness auto

termination digits_of
  by (relation "measure id") auto

declare digits_of.simps [simp del]

definition sample_render :: "real \<Rightarrow> string" where
  "sample_render x = digits_of (nat \<lfloor>x\<rfloor>)"

text \<open>
  No payment log yet; a payment log that holds one earlier entry; and one that holds an
  entry of the order of \<open>same_order_report\<close>.
\<close>

definition no_log :: store where
  "no_log = \<lparr>payment_log_csv = None\<rparr>"

definition sample_log :: "payment_log_entry list" where
  "sample_log =
     [previous_entry ''2025-01-03T08:00:00''
        (sample_row 1000 ''CA-0'' ''Zeta'' ''Jan 01 2025'' ''Match'' ''VALID'')]"

definition sample_store :: store where
  "sample_store = \<lparr>payment_log_csv = Some sample_log\<rparr>"

definition same_order_log :: "payment_log_entry list" where
  "same_order_log = [previous_entry ''2025-01-07T08:00:00'' row_first_invoice]"

text \<open>The payment log file after the pass over \<open>sample_report\<close>; and the day after.\<close>

definition sample_store_after :: store where
  "sample_store_after =
     \<lparr>payment_log_csv = Some [previous_entry sample_now row_past_due, entry_due_today]\<rparr>"

definition sample_tomorrow :: nat where
  "sample_tomorrow = 20250111"


text \<open>
  Three invoice lines and three purchase orders: the first line matches its purchase
  order in every number; the second is the line of the specification's example (150 units
  invoiced at 63.11 for 9466.50, against 100 units ordered at 63.11 for 6311.00); the third
  has no purchase order.
\<close>

definition sample_line ::
  "pyval \<Rightarrow> string \<Rightarrow> string \<Rightarrow> string \<Rightarrow> real \<Rightarrow> real \<Rightarrow> real \<Rightarrow> invoice_line" where
  "sample_line number oid cust due q r a =
     \<lparr>inv_invoice_number = number, inv_order_id = oid, inv_customer_name = cust,
      inv_due_date = due, inv_ship_to = ''Paris, France'', inv_ship_mode = ''Standard'',
      inv_subtotal = Some a, inv_discount = Some 0, inv_shipping_cost = Some 10,
      inv_total = Some (a + 10), inv_file_name = ''invoice.pdf'', inv_item_name = ''Chair'',
      inv_quantity = Some q, inv_rate = Some r, inv_amount = Some a\<rparr>"

definition sample_invoices :: invoices_frame where
  "sample_invoices =
     \<lparr>number_column = ''invoice_number'',
      lines = [sample_line (PyInt 1001) ''CA-1'' ''Acme'' ''Jan 05 2025'' 2 50 100,
               sample_line (PyInt 1002) ''CA-2'' ''Bolt'' ''Jan 10 2025'' 150 63.11 9466.5,
               sample_line (PyFloat 1003) ''CA-3'' ''Core'' ''Feb 01 2025'' 1 20 20]\<rparr>"

definition sample_pos :: "po_record list" where
  "sample_pos =
     [\<lparr>po_invoice_number = PyInt 1002, po_order_id = ''CA-2'', po_customer_name = ''Bolt'',
       po_quantity = Some 100, po_rate = Some 63.11, po_expected_amount = Some 6311\<rparr>,
      \<lparr>po_invoice_number = PyInt 1001, po_order_id = ''CA-1'', po_customer_name = ''Acme'',
       po_quantity = Some 2, po_rate = Some 50, po_expected_amount = Some 100\<rparr>,
      \<lparr>po_invoice_number = PyInt 1003, po_order_id = ''CA-9'', po_customer_name = ''Core'',
       po_quantity = Some 1, po_rate = Some 20, po_expected_amount = Some 20\<rparr>]"

text \<open>The report of the three lines against the three purchase orders.\<close>

definition sample_report_rows :: "report_row list" where
  "sample_report_rows =
     [(merged_row (sample_line (PyInt 1001) ''CA-1'' ''Acme'' ''Jan 05 2025'' 2 50 100) 1001
                (Some (sample_pos ! 1)))
               \<lparr>validation_result := ''Match''\<rparr>,
             (merged_row (sample_line (PyInt 1002) ''CA-2'' ''Bolt'' ''Jan 10 2025'' 150 63.11 9466.5)
                1002 (Some (sample_pos ! 0)))
               \<lparr>validation_result := ''Quantity Mismatch, Overbilling'',
                 validation_status := ''INVALID''\<rparr>,
             (merged_row (sample_line (PyInt 1003) ''CA-3'' ''Core'' ''Feb 01 2025'' 1 20 20) 1003 None)
               \<lparr>validation_result := ''Missing PO'', validation_status := ''INVALID''\<rparr>]"


text \<open>
  A folder of three invoices and a text file. Every invoice is parsed to the same
  dictionary with two line items; the text of a PDF is taken to be its path. The service
  answers every request but those for \<^verbatim>\<open>b.pdf\<close>, which all fail.
\<close>

definition sample_parsed :: parsed_invoice where
  "sample_parsed =
     \<lparr>pi_invoice_number = PyInt 36258, pi_order_id = ''CA-2012-AB10015140-40974'',
      pi_customer_name = ''Aaron Bergman'', pi_due_date = ''Mar 06 2012'',
      pi_ship_to = ''Seattle, Washington, United States'', pi_ship_mode = ''First Class'',
      pi_subtotal = Some 60, pi_discount = Some 0, pi_shipping_cost = Some 5,
      pi_total = Some 65,
      pi_item_details = Some
        [\<lparr>it_item_name = Some ''Chair'', it_quantity = Some (Some 1), it_rate = Some (Some 40),
          it_amount = Some (Some 40)\<rparr>,
         \<lparr>it_item_name = Some ''Lamp'', it_quantity = Some (Some 2), it_rate = Some (Some 10),
          it_amount = Some (Some 20)\<rparr>]\<rparr>"

definition sample_folder :: "string list" where
  "sample_folder = [''a.pdf'', ''notes.txt'', ''b.pdf'', ''c.pdf'']"

definition sample_client :: "client \<times> nat" where
  "sample_client = (\<lparr>api_keys = [''key-1'', ''key-2''], current_key_index = 0\<rparr>, 0)"

definition sample_service :: service where
  "sample_service k key prompt =
     (if prompt = ''data/Invoice/b.pdf'' then None else Some ''{...}'')"

definition sample_decode :: "string \<Rightarrow> parsed_invoice option" where
  "sample_decode response_text = Some sample_parsed"

definition sample_extract :: "string \<Rightarrow> string" where
  "sample_extract file_path = file_path"

text \<open>The invoices frame of the two line items of \<^verbatim>\<open>a.pdf\<close>.\<close>

definition two_item_invoices :: invoices_frame where
  "two_item_invoices =
     \<lparr>number_column = ''invoice_number'', lines = flatten_items ''a.pdf'' sample_parsed\<rparr>"

section \<open>The definitions at the concrete inputs\<close>

lemmas sample_defs = sample_report_def same_order_report_def sample_row_def sample_today_def
  row_past_due_def row_due_today_def row_due_later_def row_invalid_def
  row_first_invoice_def row_second_invoice_def sample_now_def entry_due_today_def
  sample_clock_def accepting_post_def refusing_post_def sample_gen_def no_log_def
  sample_log_def sample_store_def

lemmas reread_sample_defs = row_no_customer_def no_customer_report_def row_leading_zeros_def
  leading_zeros_report_def entry_leading_zeros_def same_order_log_def sample_scan_def
  sample_store_after_def sample_tomorrow_def

lemmas strptime_defs = strptime_b_d_Y_def month_of_def digit_of_def days_in_month_def

lemma strptime_sample: "strptime_b_d_Y ''Jan 05 2025'' = Some 20250105"
  by (simp add: strptime_defs)

lemmas validation_sample_defs = sample_invoices_def sample_pos_def sample_line_def

lemma sample_validation:
  "validate_invoices sample_invoices sample_pos
     = ((sample_invoices\<lparr>number_column := ''invoice_number_inv'',
           lines := [sample_line (PyInt 1001) ''CA-1'' ''Acme'' ''Jan 05 2025'' 2 50 100,
                     sample_line (PyInt 1002) ''CA-2'' ''Bolt'' ''Jan 10 2025'' 150 63.11 9466.5,
                     sample_line (PyInt 1003) ''CA-3'' ''Core'' ''Feb 01 2025'' 1 20 20]\<rparr>,
         sample_pos),
        Inr [(merged_row (sample_line (PyInt 1001) ''CA-1'' ''Acme'' ''Jan 05 2025'' 2 50 100) 1001
                (Some (sample_pos ! 1)))
               \<lparr>validation_result := ''Match''\<rparr>,
             (merged_row (sample_line (PyInt 1002) ''CA-2'' ''Bolt'' ''Jan 10 2025'' 150 63.11 9466.5)
                1002 (Some (sample_pos ! 0)))
               \<lparr>validation_result := ''Quantity Mismatch, Overbilling'',
                 validation_status := ''INVALID''\<rparr>,
             (merged_row (sample_line (PyInt 1003) ''CA-3'' ''Core'' ''Feb 01 2025'' 1 20 20) 1003 None)
               \<lparr>validation_result := ''Missing PO'', validation_status := ''INVALID''\<rparr>])"
  by (simp add: validate_invoices_def validation_sample_defs assign_inv_number_def
      assign_po_number_def merge_left_one_to_one_def left_key_def right_key_def
      validate_row_def check_missing_po_def isna_def get_validation_reasons_def merged_row_def
      Let_def)


lemmas extraction_sample_defs = sample_folder_def sample_client_def sample_service_def
  sample_decode_def sample_extract_def

lemma sample_parse_a:
  "parse_invoice_with_genai sample_service sample_decode sample_client ''data/Invoice/a.pdf''
     = ((\<lparr>api_keys = [''key-1'', ''key-2''], current_key_index = 0\<rparr>, 1), Inr (Some sample_parsed))"
  by (simp add: parse_invoice_with_genai_def extraction_sample_defs numeral_3_eq_3)

lemma sample_parse_b:
  "parse_invoice_with_genai sample_service sample_decode
     (\<lparr>api_keys = [''key-1'', ''key-2''], current_key_index = 0\<rparr>, 1) ''data/Invoice/b.pdf''
     = ((\<lparr>api_keys = [''key-1'', ''key-2''], current_key_index = 1\<rparr>, 4), Inr None)"
  by (simp add: parse_invoice_with_genai_def extraction_sample_defs numeral_3_eq_3 rotate_key_def)

lemma sample_parse_c:
  "parse_invoice_with_genai sample_service sample_decode sample_client ''data/Invoice/c.pdf''
     = ((\<lparr>api_keys = [''key-1'', ''key-2''], current_key_index = 0\<rparr>, 1), Inr (Some sample_parsed))"
  by (simp add: parse_invoice_with_genai_def extraction_sample_defs numeral_3_eq_3)

lemma sample_paths:
  "os_path_join ''data/Invoice/'' ''a.pdf'' = ''data/Invoice/a.pdf''"
  "os_path_join ''data/Invoice/'' ''b.pdf'' = ''data/Invoice/b.pdf''"
  "os_path_join ''data/Invoice/'' ''c.pdf'' = ''data/Invoice/c.pdf''"
  "endswith ''a.pdf'' ''.pdf''" "endswith ''b.pdf'' ''.pdf''" "endswith ''c.pdf'' ''.pdf''"
  "\<not> endswith ''notes.txt'' ''.pdf''"
  by (simp_all add: os_path_join_def endswith_def)


section \<open>Properties of the payment state tracker\<close>

subsection \<open>Parsing the due-date column\<close>

lemma to_datetime_length:
  "to_datetime strptime ss = Inr ds \<Longrightarrow> length ds = length ss"
  by (induction ss arbitrary: ds) (auto split: option.splits sum.splits)

lemma to_datetime_zip:
  "to_datetime strptime (map due_date report) = Inr dates \<Longrightarrow>
     (row, d) \<in> set (zip report dates) \<Longrightarrow> strptime (due_date row) = Some d"
proof (induction report arbitrary: dates)
  case Nil
  then show ?case by simp
next
  case (Cons r report)
  then show ?case
    by (auto split: option.splits sum.splits)
qed

lemma select_rows:
  "to_datetime strptime (map due_date report) = Inr dates \<Longrightarrow>
     map fst (filter (\<lambda>(row, d). P row d) (zip report dates))
       = filter (\<lambda>row. case strptime (due_date row) of None \<Rightarrow> False | Some d \<Rightarrow> P row d) report"
proof (induction report arbitrary: dates)
  case Nil
  then show ?case by simp
next
  case (Cons r report)
  then show ?case
    by (auto split: option.splits sum.splits)
qed

lemma past_due_eq:
  assumes "to_datetime strptime (map due_date report) = Inr dates"
  shows "process_past_due_invoices strptime today clock post gen report existing =
           past_due_loop clock post gen existing
             (map fst (filter (\<lambda>(row, d). d < today \<and> validation_status row = ''VALID'')
                (zip report dates))) [] []"
  using assms by (simp add: process_past_due_invoices_def)

lemma todays_eq:
  assumes "to_datetime strptime (map due_date report) = Inr dates"
  shows "process_todays_invoices strptime today clock post gen report existing =
           todays_loop clock post gen existing
             (map fst (filter (\<lambda>(row, d). d = today) (zip report dates))) [] []"
  using assms by (simp add: process_todays_invoices_def)

lemma past_due_Inr_dates:
  "process_past_due_invoices strptime today clock post gen report existing = (sent, Inr es) \<Longrightarrow>
     \<exists>dates. to_datetime strptime (map due_date report) = Inr dates"
  by (auto simp: process_past_due_invoices_def split: sum.splits)


lemma filter_map_fst_zip:
  "filter P (map fst (filter Q zs)) = map fst (filter (\<lambda>z. Q z \<and> P (fst z)) zs)"
  by (induction zs) auto

subsection \<open>The identity test\<close>

lemma cell_eq_iff: "cell_eq a b \<longleftrightarrow> a = b \<and> a \<noteq> Missing"
  by (cases a; cases b) auto

lemma same_identity_iff: "same_identity i j \<longleftrightarrow> i = j \<and> identity_present i"
  by (auto simp: same_identity_def identity_present_def cell_eq_iff prod_eq_iff)


lemma already_paid_iff:
  "already_paid existing_log row \<longleftrightarrow>
     (\<exists>e \<in> set existing_log. same_identity (log_identity e) (row_identity row))"
  by (auto simp: already_paid_def filter_empty_conv same_identity_def log_identity_def
      row_identity_def)

text \<open>
  The test finds a row in the log exactly when the row has both cells of its identity and
  an entry of the log has the same two cells.
\<close>

lemma already_paid_present:
  "already_paid existing_log row \<longleftrightarrow>
     identity_present (row_identity row) \<and> row_identity row \<in> set (map log_identity existing_log)"
  unfolding already_paid_iff same_identity_iff by (auto intro: rev_image_eqI)

lemma already_paid_cong:
  "map log_identity xs = map log_identity ys \<Longrightarrow> already_paid xs row = already_paid ys row"
  by (simp add: already_paid_present)


lemma already_paid_append:
  "already_paid (xs @ ys) row \<longleftrightarrow> already_paid xs row \<or> already_paid ys row"
  by (auto simp: already_paid_def)

lemma log_identity_previous [simp]:
  "log_identity (previous_entry now row) = row_identity row"
  by (simp add: log_identity_def row_identity_def previous_entry_def)

subsection \<open>Reading the payment log back\<close>

text \<open>
  A column of strings none of which reads as a number or as a missing value comes back as
  it was written, and so does a payment log whose order ids and customer names are such
  strings.
\<close>

lemma read_csv_column_strings:
  assumes "\<forall>t \<in> set texts. scan t = Text t"
  shows "read_csv_column scan texts = map Text texts"
proof (cases texts)
  case Nil
  then show ?thesis by (simp add: read_csv_column_def)
next
  case (Cons t ts)
  with assms have "scan t = Text t" by simp
  with Cons have "\<not> list_all (\<lambda>t. case scan t of Text s \<Rightarrow> False | Number x \<Rightarrow> True
                                    | Missing \<Rightarrow> True) texts"
    by simp
  moreover have "map (\<lambda>t. case scan t of Text s \<Rightarrow> Text t | Number x \<Rightarrow> Text t
                           | Missing \<Rightarrow> Missing) texts = map Text texts"
    using assms by (intro map_cong) auto
  ultimately show ?thesis by (simp add: read_csv_column_def)
qed

lemma map_zip_zip_map:
  "map (\<lambda>(e, a, b). h e a b) (zip xs (zip (map f xs) (map g xs)))
     = map (\<lambda>e. h e (f e) (g e)) xs"
  by (induction xs) auto

lemma read_csv_log_strings:
  assumes "\<forall>e \<in> set written. \<exists>s c. log_order_id e = Text s \<and> scan s = Text s
                                  \<and> log_customer_name e = Text c \<and> scan c = Text c"
  shows "read_csv_log scan render written = written"
proof -
  have oids: "read_csv_column scan (map (\<lambda>e. csv_text render (log_order_id e)) written)
                = map log_order_id written"
  proof -
    have "\<forall>t \<in> set (map (\<lambda>e. csv_text render (log_order_id e)) written). scan t = Text t"
      using assms by (auto simp: csv_text_def)
    from read_csv_column_strings [OF this]
    have "read_csv_column scan (map (\<lambda>e. csv_text render (log_order_id e)) written)
            = map (\<lambda>e. Text (csv_text render (log_order_id e))) written"
      by (simp add: comp_def)
    also have "\<dots> = map log_order_id written"
      using assms by (intro map_cong) (auto simp: csv_text_def)
    finally show ?thesis .
  qed
  have custs: "read_csv_column scan (map (\<lambda>e. csv_text render (log_customer_name e)) written)
                 = map log_customer_name written"
  proof -
    have "\<forall>t \<in> set (map (\<lambda>e. csv_text render (log_customer_name e)) written). scan t = Text t"
      using assms by (auto simp: csv_text_def)
    from read_csv_column_strings [OF this]
    have "read_csv_column scan (map (\<lambda>e. csv_text render (log_customer_name e)) written)
            = map (\<lambda>e. Text (csv_text render (log_customer_name e))) written"
      by (simp add: comp_def)
    also have "\<dots> = map log_customer_name written"
      using assms by (intro map_cong) (auto simp: csv_text_def)
    finally show ?thesis .
  qed
  show ?thesis
    unfolding read_csv_log_def Let_def oids custs map_zip_zip_map by simp
qed

subsection \<open>Creation of an entry\<close>

text \<open>The \<^verbatim>\<open>'previous'\<close> branch sends no request and cannot raise.\<close>

lemma create_previous:
  "create_payment_log_entry now post gen n row ''previous'' = ([], Inr (previous_entry now row))"
  by (simp add: create_payment_log_entry_def previous_entry_def)

text \<open>The \<^verbatim>\<open>'auto'\<close> branch sends exactly one request, that of the row.\<close>

lemma create_auto_request:
  "fst (create_payment_log_entry now post gen n row ''auto'') = [payload_of row]"
  by (simp add: create_payment_log_entry_def trigger_payment_def
      generate_payment_justification_def payload_of_def Let_def split: option.splits)



subsection \<open>The two loops\<close>

lemma upt_shift_Cons: "[n ..< Suc (n + k)] = n # [Suc n ..< Suc (n + k)]"
  by (simp add: upt_rec)

lemma past_due_loop_eq:
  "past_due_loop clock post gen existing rows sent acc =
     (sent,
      Inr (acc @ map2 previous_entry
             (map clock [length acc ..<
                length acc + length (filter (\<lambda>r. \<not> already_paid existing r) rows)])
             (filter (\<lambda>r. \<not> already_paid existing r) rows)))"
proof (induction rows arbitrary: acc)
  case Nil
  then show ?case by simp
next
  case (Cons row rows)
  show ?case
  proof (cases "already_paid existing row")
    case True
    then show ?thesis using Cons.IH [of acc] by simp
  next
    case False
    then show ?thesis using Cons.IH [of "acc @ [previous_entry (clock (length acc)) row]"]
      by (simp add: create_previous upt_shift_Cons del: upt_Suc)
  qed
qed



lemma todays_loop_step_Inr:
  assumes "validation_status row = ''VALID''" "\<not> already_paid existing row"
      and "create_payment_log_entry (clock (length acc)) post gen (length sent) row ''auto''
             = (requests, Inr entry)"
  shows "todays_loop clock post gen existing (row # rows) sent acc =
           todays_loop clock post gen existing rows (sent @ [payload_of row]) (acc @ [entry])"
  using assms create_auto_request [of "clock (length acc)" post gen "length sent" row] by simp

lemma todays_loop_step_Inl:
  assumes "validation_status row = ''VALID''" "\<not> already_paid existing row"
      and "create_payment_log_entry (clock (length acc)) post gen (length sent) row ''auto''
             = (requests, Inl e)"
  shows "todays_loop clock post gen existing (row # rows) sent acc
           = (sent @ [payload_of row], Inl e)"
  using assms create_auto_request [of "clock (length acc)" post gen "length sent" row] by simp

lemma todays_loop_skip:
  assumes "\<not> (validation_status row = ''VALID'' \<and> \<not> already_paid existing row)"
  shows "todays_loop clock post gen existing (row # rows) sent acc =
           todays_loop clock post gen existing rows sent acc"
  using assms by auto

lemma create_auto_cases:
  obtains res where
    "create_payment_log_entry now post gen n row ''auto'' = ([payload_of row], res)"
  using create_auto_request [of now post gen n row]
  by (cases "create_payment_log_entry now post gen n row ''auto''") simp



lemma todays_loop_sent:
  "todays_loop clock post gen existing rows sent acc = (sent', res) \<Longrightarrow>
     set sent' \<subseteq> set sent \<union> payload_of ` set rows"
proof (induction rows arbitrary: sent acc)
  case Nil
  then show ?case by auto
next
  case (Cons row rows)
  show ?case
  proof (cases "validation_status row = ''VALID'' \<and> \<not> already_paid existing row")
    case False
    from Cons.IH [OF Cons.prems [unfolded todays_loop_skip [OF False]]]
    show ?thesis by auto
  next
    case True
    obtain r where
      c: "create_payment_log_entry (clock (length acc)) post gen (length sent) row ''auto''
            = ([payload_of row], r)"
      by (rule create_auto_cases)
    show ?thesis
    proof (cases r)
      case (Inl e)
      with True c Cons.prems have "sent' = sent @ [payload_of row]"
        by (simp add: todays_loop_step_Inl)
      then show ?thesis by auto
    next
      case (Inr entry)
      with True c have
        "todays_loop clock post gen existing (row # rows) sent acc =
           todays_loop clock post gen existing rows (sent @ [payload_of row]) (acc @ [entry])"
        by (simp add: todays_loop_step_Inr)
      from Cons.IH [OF Cons.prems [unfolded this]] show ?thesis by auto
    qed
  qed
qed



lemma previous_entries_project:
  "length stamps = length rows \<Longrightarrow>
     map (\<lambda>e. (log_order_id e, log_customer_name e, log_due_date e, log_amount e))
         (map2 previous_entry stamps rows)
       = map (\<lambda>row. (order_id row, customer_name row, due_date row, total row)) rows"
  by (induction stamps rows rule: list_induct2) (auto simp: previous_entry_def)


subsection \<open>The rows that the two functions act on\<close>

lemma past_due_selection:
  assumes "to_datetime strptime (map due_date report) = Inr dates"
  shows "filter (\<lambda>r. \<not> already_paid existing r)
           (map fst (filter (\<lambda>(row, d). d < today \<and> validation_status row = ''VALID'')
              (zip report dates)))
         = filter (past_due_unlogged strptime today existing) report"
  unfolding select_rows [OF assms] filter_filter
  by (rule filter_cong) (auto simp: past_due_unlogged_def split: option.splits)


text \<open>
  \<^verbatim>\<open>process_past_due_invoices\<close>, when it returns, has sent no request and returns the
  \<^verbatim>\<open>'previous'\<close> entries of the VALID, past-due, unlogged rows, in row order.
\<close>

lemma past_due_result:
  assumes "process_past_due_invoices strptime today clock post gen report existing
             = (sent, Inr entries)"
  shows "sent = []
       \<and> entries = map2 previous_entry
           (map clock [0 ..< length (filter (past_due_unlogged strptime today existing) report)])
           (filter (past_due_unlogged strptime today existing) report)"
proof -
  from assms obtain dates where dates: "to_datetime strptime (map due_date report) = Inr dates"
    using past_due_Inr_dates by blast
  from assms show ?thesis
    unfolding past_due_eq [OF dates] past_due_loop_eq past_due_selection [OF dates] by simp
qed






subsection \<open>Two disjoint selections of a list\<close>


subsection \<open>The tracker on the concrete reports\<close>

lemma sample_dates:
  "to_datetime strptime_b_d_Y (map due_date sample_report)
     = Inr [20250105, 20250110, 20250201, 20250102]"
  by (simp add: sample_defs strptime_defs)




lemma sample_past_due:
  "process_past_due_invoices strptime_b_d_Y sample_today sample_clock post gen sample_report []
     = ([], Inr [previous_entry sample_now row_past_due])"
  unfolding past_due_eq [OF sample_dates] past_due_loop_eq
  by (simp add: sample_report_def sample_today_def sample_clock_def already_paid_def
      row_past_due_def row_due_today_def row_due_later_def row_invalid_def sample_row_def)

lemma sample_todays:
  "process_todays_invoices strptime_b_d_Y sample_today sample_clock accepting_post sample_gen
     sample_report []
     = ([payload_of row_due_today], Inr [entry_due_today])"
  unfolding todays_eq [OF sample_dates]
  by (simp add: sample_defs already_paid_def create_payment_log_entry_def trigger_payment_def
      generate_payment_justification_def dict_get_def payload_of_def)













lemma load_sample_store:
  "load_existing_payment_log sample_scan sample_render sample_store = sample_log"
  by (simp add: load_existing_payment_log_def read_csv_log_def read_csv_column_def csv_text_def
      sample_store_def sample_log_def previous_entry_def sample_row_def sample_scan_def
      digit_of_def)



lemma sample_past_due_logged:
  "process_past_due_invoices strptime_b_d_Y sample_today sample_clock post gen sample_report
     sample_log
     = ([], Inr [previous_entry sample_now row_past_due])"
  unfolding past_due_eq [OF sample_dates] past_due_loop_eq
  by (simp add: sample_report_def sample_today_def sample_clock_def already_paid_def
      row_past_due_def row_due_today_def row_due_later_def row_invalid_def sample_row_def
      sample_log_def previous_entry_def)

lemma sample_todays_logged:
  "process_todays_invoices strptime_b_d_Y sample_today sample_clock accepting_post sample_gen
     sample_report sample_log
     = ([payload_of row_due_today], Inr [entry_due_today])"
  unfolding todays_eq [OF sample_dates]
  by (simp add: sample_defs already_paid_def create_payment_log_entry_def trigger_payment_def
      generate_payment_justification_def dict_get_def payload_of_def previous_entry_def)

subsection \<open>Idempotence\<close>




subsection \<open>Past-due backfill\<close>

text \<open>
  C4. Take the rows of the report that are VALID, whose due date is strictly before today
  and whose (\<^verbatim>\<open>order_id\<close>, \<^verbatim>\<open>customer_name\<close>) no entry of the existing log has. The
  entries that \<^verbatim>\<open>process_past_due_invoices\<close> emits are exactly one per such row, in row
  order: the entry carries the row's order id, customer name, due date and total, the
  payment mode \<^verbatim>\<open>PreviouslyPaid\<close>, the transaction id \<^verbatim>\<open>PREVIOUSLY_PAID\<close>, the status
  \<^verbatim>\<open>SUCCESS\<close> and the message \<^verbatim>\<open>Auto-paid earlier\<close>. The function sends no request to the
  payment processor, and every request that \<^verbatim>\<open>process_todays_invoices\<close> sends in the same
  pass is for a row whose due date is today, so none is for a past-due row.
\<close>

theorem past_due_backfill:
  assumes past: "process_past_due_invoices strptime today clock post gen report existing
                   = (sent_past_due, Inr entries)"
      and todays: "process_todays_invoices strptime today clock post gen report existing
                     = (sent_today, res)"
  shows "entries = map2 previous_entry
                     (map clock [0 ..< length (filter (past_due_unlogged strptime today existing) report)])
                     (filter (past_due_unlogged strptime today existing) report)
       \<and> map (\<lambda>e. (log_order_id e, log_customer_name e, log_due_date e, log_amount e)) entries
           = map (\<lambda>row. (order_id row, customer_name row, due_date row, total row))
               (filter (past_due_unlogged strptime today existing) report)
       \<and> (\<forall>e \<in> set entries.
             log_payment_mode e = ''PreviouslyPaid'' \<and> log_transaction_id e = ''PREVIOUSLY_PAID''
             \<and> log_status e = ''SUCCESS'' \<and> log_message e = ''Auto-paid earlier'')
       \<and> sent_past_due = []
       \<and> (\<forall>request \<in> set sent_today. strptime (req_due_date request) = Some today)"
proof -
  from past obtain dates where dates: "to_datetime strptime (map due_date report) = Inr dates"
    using past_due_Inr_dates by blast
  define qualifying where "qualifying = filter (past_due_unlogged strptime today existing) report"
  from past_due_result [OF past]
  have e: "entries = map2 previous_entry (map clock [0 ..< length qualifying]) qualifying"
    and none: "sent_past_due = []" unfolding qualifying_def by simp_all
  have len: "length (map clock [0 ..< length qualifying]) = length qualifying" by simp
  have proj: "map (\<lambda>e. (log_order_id e, log_customer_name e, log_due_date e, log_amount e)) entries
           = map (\<lambda>row. (order_id row, customer_name row, due_date row, total row)) qualifying"
    unfolding e by (rule previous_entries_project [OF len])
  have fixed: "\<forall>e \<in> set entries.
             log_payment_mode e = ''PreviouslyPaid'' \<and> log_transaction_id e = ''PREVIOUSLY_PAID''
             \<and> log_status e = ''SUCCESS'' \<and> log_message e = ''Auto-paid earlier''"
    unfolding e by (auto simp: previous_entry_def dest!: set_zip_rightD)
  have "set sent_today
          \<subseteq> payload_of ` set (map fst (filter (\<lambda>(row, d). d = today) (zip report dates)))"
    using todays_loop_sent [OF todays [unfolded todays_eq [OF dates]]] by simp
  then have calls: "\<forall>request \<in> set sent_today. strptime (req_due_date request) = Some today"
    using to_datetime_zip [OF dates] by (auto simp: payload_of_def)
  from e proj fixed none calls show ?thesis unfolding qualifying_def by blast
qed

theorem past_due_backfill_witness:
  "process_past_due_invoices strptime_b_d_Y sample_today sample_clock accepting_post sample_gen
     sample_report []
     = ([], Inr [previous_entry sample_now row_past_due])
   \<and> process_todays_invoices strptime_b_d_Y sample_today sample_clock accepting_post sample_gen
       sample_report []
       = ([payload_of row_due_today], Inr [entry_due_today])
   \<and> filter (past_due_unlogged strptime_b_d_Y sample_today []) sample_report = [row_past_due]
   \<and> map (\<lambda>e. (log_order_id e, log_customer_name e, log_due_date e, log_amount e))
        [previous_entry sample_now row_past_due]
       = [(Text ''CA-1'', Text ''Acme'', ''Jan 05 2025'', Some 110)]
   \<and> log_payment_mode (previous_entry sample_now row_past_due) = ''PreviouslyPaid''
   \<and> log_transaction_id (previous_entry sample_now row_past_due) = ''PREVIOUSLY_PAID''
   \<and> strptime_b_d_Y (req_due_date (payload_of row_due_today)) = Some sample_today"
proof -
  have q: "filter (past_due_unlogged strptime_b_d_Y sample_today []) sample_report
             = [row_past_due]"
    by (simp add: past_due_unlogged_def sample_defs strptime_defs already_paid_def)
  have p1: "map (\<lambda>e. (log_order_id e, log_customer_name e, log_due_date e, log_amount e))
        [previous_entry sample_now row_past_due]
       = [(Text ''CA-1'', Text ''Acme'', ''Jan 05 2025'', Some 110)]"
    by (simp add: previous_entry_def row_past_due_def sample_row_def)
  have p2: "log_payment_mode (previous_entry sample_now row_past_due) = ''PreviouslyPaid''"
    and p3: "log_transaction_id (previous_entry sample_now row_past_due) = ''PREVIOUSLY_PAID''"
    by (simp_all add: previous_entry_def)
  note c = past_due_backfill [OF sample_past_due sample_todays]
  from c have p4: "strptime_b_d_Y (req_due_date (payload_of row_due_today)) = Some sample_today"
    by simp
  from sample_past_due [of accepting_post sample_gen] sample_todays q p1 p2 p3 p4
  show ?thesis by blast
qed

subsection \<open>At most one payment action per identity\<close>




subsection \<open>A failing payment call\<close>




subsection \<open>The payment log accumulator\<close>

text \<open>
  C8. When both tracker calls of a pass succeed, the payment log that
  \<^verbatim>\<open>process_payments_and_past_due\<close> persists is the loaded log, in its order, followed by
  the past-due entries and then by today's entries, in their order of emission: no earlier
  entry is removed, rewritten or deduplicated.
\<close>

theorem accumulator_concatenates:
  assumes "process_past_due_invoices strptime today clock post gen report
             (load_existing_payment_log scan render st) = (sent_past_due, Inr past_due_entries)"
      and "process_todays_invoices strptime today clock post gen report
             (load_existing_payment_log scan render st) = (sent_today, Inr todays_entries)"
  shows "process_payments_and_past_due strptime today clock post gen scan render report st
           = (sent_past_due @ sent_today, Inr (),
              st\<lparr>payment_log_csv :=
                   Some (load_existing_payment_log scan render st
                           @ past_due_entries @ todays_entries)\<rparr>)"
  using assms by (simp add: process_payments_and_past_due_def Let_def)

theorem accumulator_concatenates_witness:
  "process_past_due_invoices strptime_b_d_Y sample_today sample_clock accepting_post sample_gen
     sample_report (load_existing_payment_log sample_scan sample_render sample_store)
     = ([], Inr [previous_entry sample_now row_past_due])
   \<and> process_todays_invoices strptime_b_d_Y sample_today sample_clock accepting_post sample_gen
       sample_report (load_existing_payment_log sample_scan sample_render sample_store)
       = ([payload_of row_due_today], Inr [entry_due_today])
   \<and> process_payments_and_past_due strptime_b_d_Y sample_today sample_clock accepting_post
       sample_gen sample_scan sample_render sample_report sample_store
       = ([payload_of row_due_today], Inr (),
          \<lparr>payment_log_csv =
             Some (sample_log @ [previous_entry sample_now row_past_due] @ [entry_due_today])\<rparr>)"
proof -
  have a: "process_past_due_invoices strptime_b_d_Y sample_today sample_clock accepting_post
             sample_gen sample_report
             (load_existing_payment_log sample_scan sample_render sample_store)
           = ([], Inr [previous_entry sample_now row_past_due])"
    unfolding load_sample_store by (rule sample_past_due_logged)
  have b: "process_todays_invoices strptime_b_d_Y sample_today sample_clock accepting_post
             sample_gen sample_report
             (load_existing_payment_log sample_scan sample_render sample_store)
           = ([payload_of row_due_today], Inr [entry_due_today])"
    unfolding load_sample_store by (rule sample_todays_logged)
  from accumulator_concatenates [OF a b]
  have "process_payments_and_past_due strptime_b_d_Y sample_today sample_clock accepting_post
          sample_gen sample_scan sample_render sample_report sample_store
        = ([payload_of row_due_today], Inr (),
           sample_store\<lparr>payment_log_csv :=
             Some (sample_log @ [previous_entry sample_now row_past_due] @ [entry_due_today])\<rparr>)"
    by (simp add: load_sample_store)
  then have c: "process_payments_and_past_due strptime_b_d_Y sample_today sample_clock
          accepting_post sample_gen sample_scan sample_render sample_report sample_store
        = ([payload_of row_due_today], Inr (),
           \<lparr>payment_log_csv =
             Some (sample_log @ [previous_entry sample_now row_past_due] @ [entry_due_today])\<rparr>)"
    by simp
  from a b c show ?thesis by blast
qed

section \<open>Properties of the validation\<close>

subsection \<open>Coercion and merge\<close>

lemma astype_int_column_length:
  "astype_int_column vs = Inr ns \<Longrightarrow> length ns = length vs"
  by (induction vs arbitrary: ns) (auto split: sum.splits)

lemma astype_int_column_nth:
  "astype_int_column vs = Inr ns \<Longrightarrow> i < length vs \<Longrightarrow> astype_int (vs ! i) = Inr (ns ! i)"
proof (induction vs arbitrary: ns i)
  case Nil
  then show ?case by simp
next
  case (Cons v vs)
  then show ?case
    by (cases i) (auto split: sum.splits)
qed

lemma astype_int_column_Inl:
  "astype_int_column vs = Inl e \<Longrightarrow> e = IntCastError"
proof (induction vs)
  case Nil
  then show ?case by simp
next
  case (Cons v vs)
  then show ?case by (cases v) (auto split: sum.splits)
qed

lemma filter_unique_key:
  assumes "distinct (map f xs)" "x \<in> set xs"
  shows "filter (\<lambda>y. f y = f x) xs = [x]"
  using assms
proof (induction xs)
  case Nil
  then show ?case by simp
next
  case (Cons a xs)
  show ?case
  proof (cases "a = x")
    case True
    with Cons.prems have "f x \<notin> f ` set xs" by simp
    then have "\<forall>y \<in> set xs. f y \<noteq> f x" by (metis imageI)
    then have "filter (\<lambda>y. f y = f x) xs = []" by (simp add: filter_empty_conv)
    with True show ?thesis by simp
  next
    case False
    with Cons.prems have x: "x \<in> set xs" and "f a \<noteq> f x" by force+
    with Cons show ?thesis by simp
  qed
qed

lemma merge_Inr:
  assumes "merge_left_one_to_one left right = Inr merged"
  shows "merged = map (\<lambda>lrow. merged_row (fst lrow) (snd lrow) (matched_po right lrow)) left"
    and "distinct (map left_key left)" and "distinct (map right_key right)"
proof -
  from assms show dl: "distinct (map left_key left)" and dr: "distinct (map right_key right)"
    by (auto simp: merge_left_one_to_one_def split: if_splits)
  have one: "(case filter (\<lambda>prow. right_key prow = left_key lrow) right of
                [] \<Rightarrow> [merged_row (fst lrow) (snd lrow) None]
              | matches \<Rightarrow> map (\<lambda>prow. merged_row (fst lrow) (snd lrow) (Some (fst prow))) matches)
             = [merged_row (fst lrow) (snd lrow) (matched_po right lrow)]" for lrow
  proof (cases "find (\<lambda>prow. right_key prow = left_key lrow) right")
    case None
    then have "filter (\<lambda>prow. right_key prow = left_key lrow) right = []"
      unfolding find_None_iff filter_empty_conv by blast
    with None show ?thesis by (simp add: matched_po_def)
  next
    case (Some prow)
    then have "prow \<in> set right" and k: "right_key prow = left_key lrow"
      by (auto simp: find_Some_iff)
    from filter_unique_key [OF dr this(1)] k
    have "filter (\<lambda>y. right_key y = left_key lrow) right = [prow]" by simp
    with Some show ?thesis by (simp add: matched_po_def)
  qed
  from assms dl dr have "merged = concat (map (\<lambda>lrow.
                  case filter (\<lambda>prow. right_key prow = left_key lrow) right of
                    [] \<Rightarrow> [merged_row (fst lrow) (snd lrow) None]
                  | matches \<Rightarrow> map (\<lambda>prow. merged_row (fst lrow) (snd lrow) (Some (fst prow))) matches)
                  left)"
    by (simp add: merge_left_one_to_one_def)
  then show "merged = map (\<lambda>lrow. merged_row (fst lrow) (snd lrow) (matched_po right lrow)) left"
    unfolding one by (simp add: concat_map_singleton)
qed


lemma assign_inv_number_length:
  "length ns = length rows \<Longrightarrow> length (assign_inv_number rows ns) = length rows"
  by (simp add: assign_inv_number_def)

lemma assign_inv_number_nth:
  "length ns = length rows \<Longrightarrow> i < length rows \<Longrightarrow>
     assign_inv_number rows ns ! i = (rows ! i)\<lparr>inv_invoice_number := PyInt (ns ! i)\<rparr>"
  by (simp add: assign_inv_number_def)

lemma assign_po_number_length:
  "length ms = length rows \<Longrightarrow> length (assign_po_number rows ms) = length rows"
  by (simp add: assign_po_number_def)

lemma assign_po_number_nth:
  "length ms = length rows \<Longrightarrow> i < length rows \<Longrightarrow>
     assign_po_number rows ms ! i = (rows ! i)\<lparr>po_invoice_number := PyInt (ms ! i)\<rparr>"
  by (simp add: assign_po_number_def)

lemma validate_invoices_Inr:
  assumes "validate_invoices invoices_df po_df = (after, Inr report)"
  obtains ns ms where
    "number_column invoices_df = ''invoice_number''"
    "astype_int_column (map inv_invoice_number (lines invoices_df)) = Inr ns"
    "astype_int_column (map po_invoice_number po_df) = Inr ms"
    "after = (invoices_df\<lparr>lines := assign_inv_number (lines invoices_df) ns,
                           number_column := ''invoice_number_inv''\<rparr>,
              assign_po_number po_df ms)"
    "merge_left_one_to_one (zip (assign_inv_number (lines invoices_df) ns) ns)
        (zip (assign_po_number po_df ms) ms)
       = Inr (map (\<lambda>lrow. merged_row (fst lrow) (snd lrow)
                            (matched_po (zip (assign_po_number po_df ms) ms) lrow))
                (zip (assign_inv_number (lines invoices_df) ns) ns))"
    "report = map (\<lambda>lrow. validate_row (merged_row (fst lrow) (snd lrow)
                            (matched_po (zip (assign_po_number po_df ms) ms) lrow)))
                (zip (assign_inv_number (lines invoices_df) ns) ns)"
proof -
  from assms have c: "number_column invoices_df = ''invoice_number''"
    by (auto simp: validate_invoices_def split: if_splits)
  from assms c obtain ns where ns: "astype_int_column (map inv_invoice_number (lines invoices_df)) = Inr ns"
    by (cases "astype_int_column (map inv_invoice_number (lines invoices_df))")
       (auto simp: validate_invoices_def)
  from assms c ns obtain ms where ms: "astype_int_column (map po_invoice_number po_df) = Inr ms"
    by (cases "astype_int_column (map po_invoice_number po_df)")
       (auto simp: validate_invoices_def Let_def)
  let ?left = "zip (assign_inv_number (lines invoices_df) ns) ns"
  let ?right = "zip (assign_po_number po_df ms) ms"
  from assms c ns ms obtain merged where
    m: "merge_left_one_to_one ?left ?right = Inr merged"
    and r: "report = map validate_row merged"
    and a: "after = (invoices_df\<lparr>lines := assign_inv_number (lines invoices_df) ns,
                           number_column := ''invoice_number_inv''\<rparr>,
              assign_po_number po_df ms)"
    by (cases "merge_left_one_to_one ?left ?right")
       (auto simp: validate_invoices_def Let_def)
  from merge_Inr(1) [OF m] m r
  show ?thesis by (intro that [OF c ns ms a]) (simp_all add: comp_def)
qed


lemma find_filter_conv:
  "find P xs = (case filter P xs of [] \<Rightarrow> None | x # _ \<Rightarrow> Some x)"
  by (induction xs) auto

lemma left_key_nth:
  "length ns = length rows \<Longrightarrow> i < length rows \<Longrightarrow>
     left_key (zip (assign_inv_number rows ns) ns ! i)
       = (ns ! i, inv_order_id (rows ! i), inv_customer_name (rows ! i))"
  by (simp add: left_key_def assign_inv_number_nth assign_inv_number_length)

lemma right_key_nth:
  "length ms = length rows \<Longrightarrow> j < length rows \<Longrightarrow>
     right_key (zip (assign_po_number rows ms) ms ! j)
       = (ms ! j, po_order_id (rows ! j), po_customer_name (rows ! j))"
  by (simp add: right_key_def assign_po_number_nth assign_po_number_length)

lemma key_match_nth:
  assumes ns: "astype_int_column (map inv_invoice_number rows) = Inr ns"
      and ms: "astype_int_column (map po_invoice_number pos) = Inr ms"
      and i: "i < length rows" and j: "j < length pos"
  shows "right_key (zip (assign_po_number pos ms) ms ! j)
           = left_key (zip (assign_inv_number rows ns) ns ! i)
         \<longleftrightarrow> key_match (rows ! i) (pos ! j)"
proof -
  from astype_int_column_length [OF ns] have ln: "length ns = length rows" by simp
  from astype_int_column_length [OF ms] have lm: "length ms = length pos" by simp
  from astype_int_column_nth [OF ns, of i] i
  have a: "astype_int (inv_invoice_number (rows ! i)) = Inr (ns ! i)" by simp
  from astype_int_column_nth [OF ms, of j] j
  have b: "astype_int (po_invoice_number (pos ! j)) = Inr (ms ! j)" by simp
  show ?thesis
    unfolding left_key_nth [OF ln i] right_key_nth [OF lm j] key_match_def a b by auto
qed

lemma matched_po_None:
  assumes ns: "astype_int_column (map inv_invoice_number rows) = Inr ns"
      and ms: "astype_int_column (map po_invoice_number pos) = Inr ms"
      and i: "i < length rows"
      and none: "\<forall>p \<in> set pos. \<not> key_match (rows ! i) p"
  shows "matched_po (zip (assign_po_number pos ms) ms) (zip (assign_inv_number rows ns) ns ! i) = None"
proof -
  from astype_int_column_length [OF ms] have lm: "length ms = length pos" by simp
  let ?right = "zip (assign_po_number pos ms) ms"
  have lr: "length ?right = length pos" using lm by (simp add: assign_po_number_length)
  have "\<forall>prow \<in> set ?right. right_key prow \<noteq> left_key (zip (assign_inv_number rows ns) ns ! i)"
  proof
    fix prow assume "prow \<in> set ?right"
    then obtain j where j: "j < length pos" and p: "prow = ?right ! j"
      using lr by (metis in_set_conv_nth)
    from none j have "\<not> key_match (rows ! i) (pos ! j)" by simp
    with key_match_nth [OF ns ms i j] p
    show "right_key prow \<noteq> left_key (zip (assign_inv_number rows ns) ns ! i)" by simp
  qed
  then show ?thesis by (simp add: matched_po_def find_None_iff)
qed

lemma matched_po_Some:
  assumes ns: "astype_int_column (map inv_invoice_number rows) = Inr ns"
      and ms: "astype_int_column (map po_invoice_number pos) = Inr ms"
      and i: "i < length rows" and j: "j < length pos"
      and d: "distinct (map right_key (zip (assign_po_number pos ms) ms))"
      and k: "key_match (rows ! i) (pos ! j)"
  shows "matched_po (zip (assign_po_number pos ms) ms) (zip (assign_inv_number rows ns) ns ! i)
           = Some ((pos ! j)\<lparr>po_invoice_number := PyInt (ms ! j)\<rparr>)"
proof -
  from astype_int_column_length [OF ms] have lm: "length ms = length pos" by simp
  let ?right = "zip (assign_po_number pos ms) ms"
  let ?lrow = "zip (assign_inv_number rows ns) ns ! i"
  have lr: "length ?right = length pos" using lm by (simp add: assign_po_number_length)
  have mem: "?right ! j \<in> set ?right" using j lr by (intro nth_mem) simp
  have key: "right_key (?right ! j) = left_key ?lrow"
    using key_match_nth [OF ns ms i j] k by simp
  from filter_unique_key [OF d mem] key
  have "filter (\<lambda>prow. right_key prow = left_key ?lrow) ?right = [?right ! j]" by simp
  then have "find (\<lambda>prow. right_key prow = left_key ?lrow) ?right = Some (?right ! j)"
    by (simp add: find_filter_conv)
  then show ?thesis
    using j lm by (simp add: matched_po_def assign_po_number_nth assign_po_number_length)
qed

lemma validate_row_fields:
  "file_name (validate_row r) = file_name r"
  "invoice_number_inv (validate_row r) = invoice_number_inv r"
  "order_id (validate_row r) = order_id r"
  "customer_name (validate_row r) = customer_name r"
  "due_date (validate_row r) = due_date r"
  "ship_to (validate_row r) = ship_to r"
  "discount (validate_row r) = discount r"
  "shipping_cost (validate_row r) = shipping_cost r"
  "total (validate_row r) = total r"
  "quantity_inv (validate_row r) = quantity_inv r"
  "quantity_po (validate_row r) = quantity_po r"
  "rate_inv (validate_row r) = rate_inv r"
  "rate_po (validate_row r) = rate_po r"
  "amount (validate_row r) = amount r"
  "expected_amount (validate_row r) = expected_amount r"
  by (simp_all add: validate_row_def Let_def)


subsection \<open>The classifier\<close>

lemma validate_row_spec:
  "validate_row row =
     (if spec_reasons row = [] then row\<lparr>validation_result := ''Match''\<rparr>
      else row\<lparr>validation_result := join_str '', '' (spec_reasons row),
               validation_status := ''INVALID''\<rparr>)"
proof (cases "check_missing_po row")
  case True
  then have "spec_reasons row = [''Missing PO'']"
    by (auto simp: check_missing_po_def isna_def spec_reasons_def split: option.splits)
  with True show ?thesis by (simp add: validate_row_def)
next
  case False
  then obtain qp rp ea where po: "quantity_po row = Some qp" "rate_po row = Some rp"
      "expected_amount row = Some ea"
    by (auto simp: check_missing_po_def isna_def)
  have "get_validation_reasons row = spec_reasons row"
    unfolding get_validation_reasons_def spec_reasons_def po Let_def
    by (cases "quantity_inv row"; cases "rate_inv row"; cases "amount row") auto
  with False show ?thesis by (simp add: validate_row_def Let_def)
qed


lemma spec_reasons_validate_row: "spec_reasons (validate_row r) = spec_reasons r"
  by (simp add: spec_reasons_def validate_row_fields split: option.splits)


lemma astype_int_column_iff:
  "astype_int_column vs = Inr ns \<longleftrightarrow> map astype_int vs = map Inr ns"
proof (induction vs arbitrary: ns)
  case Nil
  then show ?case by auto
next
  case (Cons v vs)
  show ?case
  proof (cases ns)
    case Nil
    then show ?thesis by (auto split: sum.splits)
  next
    case (Cons n ns')
    with Cons.IH [of ns'] show ?thesis by (auto split: sum.splits)
  qed
qed


text \<open>
  When \<^verbatim>\<open>astype(int)\<close> raises on the purchase orders, the invoices frame has its column
  coerced already, and not yet renamed.
\<close>

lemma validate_invoices_po_cast_fails:
  assumes "number_column invoices_df = ''invoice_number''"
      and "astype_int_column (map inv_invoice_number (lines invoices_df)) = Inr ns"
      and "astype_int_column (map po_invoice_number po_df) = Inl e"
  shows "validate_invoices invoices_df po_df
           = ((invoices_df\<lparr>lines := assign_inv_number (lines invoices_df) ns\<rparr>, po_df),
              Inl IntCastError)"
  using assms astype_int_column_Inl [OF assms(3)]
  by (simp add: validate_invoices_def Let_def)

subsection \<open>The keys of the two frames\<close>

lemma invoice_keys_left:
  assumes ns: "astype_int_column (map inv_invoice_number rows) = Inr ns"
  shows "invoice_keys rows
           = map (\<lambda>(n, oid, cust). (Inr n, oid, cust))
               (map left_key (zip (assign_inv_number rows ns) ns))"
proof (rule nth_equalityI)
  from astype_int_column_length [OF ns] have ln: "length ns = length rows" by simp
  show "length (invoice_keys rows)
          = length (map (\<lambda>(n, oid, cust). (Inr n, oid, cust))
               (map left_key (zip (assign_inv_number rows ns) ns)))"
    using ln by (simp add: invoice_keys_def assign_inv_number_length)
  fix i assume "i < length (invoice_keys rows)"
  then have i: "i < length rows" by (simp add: invoice_keys_def)
  from astype_int_column_nth [OF ns, of i] i
  have a: "astype_int (inv_invoice_number (rows ! i)) = Inr (ns ! i)" by simp
  show "invoice_keys rows ! i
          = map (\<lambda>(n, oid, cust). (Inr n, oid, cust))
               (map left_key (zip (assign_inv_number rows ns) ns)) ! i"
    using i ln a left_key_nth [OF ln i]
    by (simp add: invoice_keys_def assign_inv_number_length)
qed

lemma po_keys_right:
  assumes ms: "astype_int_column (map po_invoice_number rows) = Inr ms"
  shows "po_keys rows
           = map (\<lambda>(n, oid, cust). (Inr n, oid, cust))
               (map right_key (zip (assign_po_number rows ms) ms))"
proof (rule nth_equalityI)
  from astype_int_column_length [OF ms] have lm: "length ms = length rows" by simp
  show "length (po_keys rows)
          = length (map (\<lambda>(n, oid, cust). (Inr n, oid, cust))
               (map right_key (zip (assign_po_number rows ms) ms)))"
    using lm by (simp add: po_keys_def assign_po_number_length)
  fix j assume "j < length (po_keys rows)"
  then have j: "j < length rows" by (simp add: po_keys_def)
  from astype_int_column_nth [OF ms, of j] j
  have a: "astype_int (po_invoice_number (rows ! j)) = Inr (ms ! j)" by simp
  show "po_keys rows ! j
          = map (\<lambda>(n, oid, cust). (Inr n, oid, cust))
               (map right_key (zip (assign_po_number rows ms) ms)) ! j"
    using j lm a right_key_nth [OF lm j]
    by (simp add: po_keys_def assign_po_number_length)
qed

lemma distinct_tag_keys:
  "distinct (map (\<lambda>(n, oid, cust). (Inr n :: error + int, oid :: string, cust :: string)) ks)
     \<longleftrightarrow> distinct ks"
  by (auto simp: distinct_map inj_on_def)


subsection \<open>Join completeness\<close>

text \<open>
  C2. Whenever \<^verbatim>\<open>validate_invoices\<close> returns a report, the report has exactly one row per
  row of the invoices frame, in the same order: the \<open>i\<close>-th report row carries the
  invoice-side cells of the \<open>i\<close>-th invoice line (and its invoice number as an integer),
  whether a purchase order matches it or not. When no purchase order has the join key of
  the line, the purchase-order cells of the report row (\<^verbatim>\<open>quantity_po\<close>, \<^verbatim>\<open>rate_po\<close>,
  \<^verbatim>\<open>expected_amount\<close>) are missing values; when one has, they are that purchase order's.
\<close>

theorem join_completeness:
  assumes ok: "validate_invoices invoices_df po_df = (after, Inr report)"
  shows "length report = length (lines invoices_df)
       \<and> (\<forall>i < length report.
            astype_int (inv_invoice_number (lines invoices_df ! i))
              = Inr (invoice_number_inv (report ! i))
            \<and> file_name (report ! i) = inv_file_name (lines invoices_df ! i)
            \<and> order_id (report ! i) = Text (inv_order_id (lines invoices_df ! i))
            \<and> customer_name (report ! i) = Text (inv_customer_name (lines invoices_df ! i))
            \<and> due_date (report ! i) = inv_due_date (lines invoices_df ! i)
            \<and> ship_to (report ! i) = inv_ship_to (lines invoices_df ! i)
            \<and> discount (report ! i) = inv_discount (lines invoices_df ! i)
            \<and> shipping_cost (report ! i) = inv_shipping_cost (lines invoices_df ! i)
            \<and> total (report ! i) = inv_total (lines invoices_df ! i)
            \<and> quantity_inv (report ! i) = inv_quantity (lines invoices_df ! i)
            \<and> rate_inv (report ! i) = inv_rate (lines invoices_df ! i)
            \<and> amount (report ! i) = inv_amount (lines invoices_df ! i))
       \<and> (\<forall>i < length report.
            (\<forall>p \<in> set po_df. \<not> key_match (lines invoices_df ! i) p) \<longrightarrow>
              quantity_po (report ! i) = None \<and> rate_po (report ! i) = None
              \<and> expected_amount (report ! i) = None)
       \<and> (\<forall>i < length report. \<forall>p \<in> set po_df.
            key_match (lines invoices_df ! i) p \<longrightarrow>
              quantity_po (report ! i) = po_quantity p \<and> rate_po (report ! i) = po_rate p
              \<and> expected_amount (report ! i) = po_expected_amount p)"
proof -
  let ?rows = "lines invoices_df"
  from ok obtain ns ms where
    ns: "astype_int_column (map inv_invoice_number ?rows) = Inr ns"
    and ms: "astype_int_column (map po_invoice_number po_df) = Inr ms"
    and m: "merge_left_one_to_one (zip (assign_inv_number ?rows ns) ns)
              (zip (assign_po_number po_df ms) ms)
            = Inr (map (\<lambda>lrow. merged_row (fst lrow) (snd lrow)
                            (matched_po (zip (assign_po_number po_df ms) ms) lrow))
                (zip (assign_inv_number ?rows ns) ns))"
    and r: "report = map (\<lambda>lrow. validate_row (merged_row (fst lrow) (snd lrow)
                            (matched_po (zip (assign_po_number po_df ms) ms) lrow)))
                (zip (assign_inv_number ?rows ns) ns)"
    by (rule validate_invoices_Inr)
  let ?left = "zip (assign_inv_number ?rows ns) ns"
  let ?right = "zip (assign_po_number po_df ms) ms"
  from astype_int_column_length [OF ns] have ln: "length ns = length ?rows" by simp
  from astype_int_column_length [OF ms] have lm: "length ms = length po_df" by simp
  have ll: "length ?left = length ?rows" using ln by (simp add: assign_inv_number_length)
  have len: "length report = length ?rows" unfolding r using ll by simp
  have dr: "distinct (map right_key ?right)" by (rule merge_Inr(3) [OF m])
  have nth: "report ! i = validate_row (merged_row ((?rows ! i)\<lparr>inv_invoice_number := PyInt (ns ! i)\<rparr>)
                             (ns ! i) (matched_po ?right (?left ! i)))"
    if "i < length ?rows" for i
    unfolding r using that ll ln by (simp add: assign_inv_number_nth assign_inv_number_length)
  have left_side: "\<forall>i < length report.
            astype_int (inv_invoice_number (?rows ! i)) = Inr (invoice_number_inv (report ! i))
            \<and> file_name (report ! i) = inv_file_name (?rows ! i)
            \<and> order_id (report ! i) = Text (inv_order_id (?rows ! i))
            \<and> customer_name (report ! i) = Text (inv_customer_name (?rows ! i))
            \<and> due_date (report ! i) = inv_due_date (?rows ! i)
            \<and> ship_to (report ! i) = inv_ship_to (?rows ! i)
            \<and> discount (report ! i) = inv_discount (?rows ! i)
            \<and> shipping_cost (report ! i) = inv_shipping_cost (?rows ! i)
            \<and> total (report ! i) = inv_total (?rows ! i)
            \<and> quantity_inv (report ! i) = inv_quantity (?rows ! i)
            \<and> rate_inv (report ! i) = inv_rate (?rows ! i)
            \<and> amount (report ! i) = inv_amount (?rows ! i)"
  proof (intro allI impI)
    fix i assume "i < length report"
    then have i: "i < length ?rows" using len by simp
    from astype_int_column_nth [OF ns, of i] i
    have "astype_int (inv_invoice_number (?rows ! i)) = Inr (ns ! i)" by simp
    then show "astype_int (inv_invoice_number (?rows ! i)) = Inr (invoice_number_inv (report ! i))
            \<and> file_name (report ! i) = inv_file_name (?rows ! i)
            \<and> order_id (report ! i) = Text (inv_order_id (?rows ! i))
            \<and> customer_name (report ! i) = Text (inv_customer_name (?rows ! i))
            \<and> due_date (report ! i) = inv_due_date (?rows ! i)
            \<and> ship_to (report ! i) = inv_ship_to (?rows ! i)
            \<and> discount (report ! i) = inv_discount (?rows ! i)
            \<and> shipping_cost (report ! i) = inv_shipping_cost (?rows ! i)
            \<and> total (report ! i) = inv_total (?rows ! i)
            \<and> quantity_inv (report ! i) = inv_quantity (?rows ! i)
            \<and> rate_inv (report ! i) = inv_rate (?rows ! i)
            \<and> amount (report ! i) = inv_amount (?rows ! i)"
      unfolding nth [OF i] by (simp add: validate_row_fields merged_row_def)
  qed
  have unmatched: "\<forall>i < length report.
            (\<forall>p \<in> set po_df. \<not> key_match (?rows ! i) p) \<longrightarrow>
              quantity_po (report ! i) = None \<and> rate_po (report ! i) = None
              \<and> expected_amount (report ! i) = None"
  proof (intro allI impI)
    fix i assume "i < length report" and none: "\<forall>p \<in> set po_df. \<not> key_match (?rows ! i) p"
    then have i: "i < length ?rows" using len by simp
    from matched_po_None [OF ns ms i none]
    show "quantity_po (report ! i) = None \<and> rate_po (report ! i) = None
              \<and> expected_amount (report ! i) = None"
      unfolding nth [OF i] by (simp add: validate_row_fields merged_row_def)
  qed
  have matched: "\<forall>i < length report. \<forall>p \<in> set po_df.
            key_match (?rows ! i) p \<longrightarrow>
              quantity_po (report ! i) = po_quantity p \<and> rate_po (report ! i) = po_rate p
              \<and> expected_amount (report ! i) = po_expected_amount p"
  proof (intro allI impI ballI)
    fix i p assume "i < length report" and p: "p \<in> set po_df" and k: "key_match (?rows ! i) p"
    then have i: "i < length ?rows" using len by simp
    from p obtain j where j: "j < length po_df" and pj: "p = po_df ! j"
      by (metis in_set_conv_nth)
    from matched_po_Some [OF ns ms i j dr k [unfolded pj]]
    show "quantity_po (report ! i) = po_quantity p \<and> rate_po (report ! i) = po_rate p
              \<and> expected_amount (report ! i) = po_expected_amount p"
      unfolding nth [OF i] pj by (simp add: validate_row_fields merged_row_def)
  qed
  from len left_side unmatched matched show ?thesis by blast
qed


theorem join_completeness_witness:
  "snd (validate_invoices sample_invoices sample_pos) = Inr sample_report_rows
   \<and> length sample_report_rows = length (lines sample_invoices)
   \<and> map order_id sample_report_rows
       = map (\<lambda>l. Text (inv_order_id l)) (lines sample_invoices)
   \<and> \<not> key_match (lines sample_invoices ! 2) (sample_pos ! 0)
   \<and> \<not> key_match (lines sample_invoices ! 2) (sample_pos ! 1)
   \<and> \<not> key_match (lines sample_invoices ! 2) (sample_pos ! 2)
   \<and> quantity_po (sample_report_rows ! 2) = None
   \<and> rate_po (sample_report_rows ! 2) = None
   \<and> expected_amount (sample_report_rows ! 2) = None
   \<and> key_match (lines sample_invoices ! 1) (sample_pos ! 0)
   \<and> quantity_po (sample_report_rows ! 1) = Some 100"
proof -
  have a: "snd (validate_invoices sample_invoices sample_pos) = Inr sample_report_rows"
    by (simp add: sample_validation sample_report_rows_def)
  then have v: "validate_invoices sample_invoices sample_pos
             = (fst (validate_invoices sample_invoices sample_pos), Inr sample_report_rows)"
    by (metis prod.collapse)
  note c = join_completeness [OF v]
  have len: "length sample_report_rows = length (lines sample_invoices)"
    using c by blast
  have l3: "length sample_report_rows = 3" by (simp add: sample_report_rows_def)
  have ids: "map order_id sample_report_rows
               = map (\<lambda>l. Text (inv_order_id l)) (lines sample_invoices)"
  proof (rule nth_equalityI)
    show "length (map order_id sample_report_rows)
            = length (map (\<lambda>l. Text (inv_order_id l)) (lines sample_invoices))"
      using len by simp
  next
    fix i assume "i < length (map order_id sample_report_rows)"
    then have i: "i < length sample_report_rows" by simp
    with c have "order_id (sample_report_rows ! i)
                   = Text (inv_order_id (lines sample_invoices ! i))"
      by blast
    with i len show "map order_id sample_report_rows ! i
                       = map (\<lambda>l. Text (inv_order_id l)) (lines sample_invoices) ! i"
      by simp
  qed
  have n0: "\<not> key_match (lines sample_invoices ! 2) (sample_pos ! 0)"
    and n1: "\<not> key_match (lines sample_invoices ! 2) (sample_pos ! 1)"
    and n2: "\<not> key_match (lines sample_invoices ! 2) (sample_pos ! 2)"
    and k: "key_match (lines sample_invoices ! 1) (sample_pos ! 0)"
    by (simp_all add: key_match_def validation_sample_defs)
  have none: "\<forall>p \<in> set sample_pos. \<not> key_match (lines sample_invoices ! 2) p"
    by (simp add: key_match_def validation_sample_defs)
  from c l3 none have u: "quantity_po (sample_report_rows ! 2) = None
      \<and> rate_po (sample_report_rows ! 2) = None \<and> expected_amount (sample_report_rows ! 2) = None"
    by simp
  have mem: "sample_pos ! 0 \<in> set sample_pos" by (simp add: sample_pos_def)
  from c l3 mem k have "quantity_po (sample_report_rows ! 1) = po_quantity (sample_pos ! 0)"
    by simp
  then have m: "quantity_po (sample_report_rows ! 1) = Some 100" by (simp add: sample_pos_def)
  from a len ids n0 n1 n2 u k m show ?thesis by blast
qed


subsection \<open>Discrepancy classification\<close>

text \<open>
  C3. The classifier follows the fixed-order algorithm. For every joined row the loop body
  of \<^verbatim>\<open>validate_invoices\<close> computes the reasons \<open>spec_reasons\<close> of the specification:
  exactly \<^verbatim>\<open>Missing PO\<close> when the purchase-order quantity, rate or expected amount is
  missing, with no other check; otherwise \<^verbatim>\<open>Quantity Mismatch\<close>, \<^verbatim>\<open>Rate Mismatch\<close> and then
  one of \<^verbatim>\<open>Overbilling\<close> (amount above the expected amount) or \<^verbatim>\<open>Amount Mismatch\<close>
  (amount below it), each by an exact comparison. With no reason the row gets the result
  \<^verbatim>\<open>Match\<close> and keeps its status; otherwise the result is the reasons joined with a
  comma and a space, and the status \<^verbatim>\<open>INVALID\<close>. In a report that
  \<^verbatim>\<open>validate_invoices\<close> returns, every row has the result and the status that its own
  cells determine in this way, the status being \<^verbatim>\<open>VALID\<close> exactly when there is no reason.
\<close>

theorem classification_fixed_order:
  "validate_row row =
     (if spec_reasons row = [] then row\<lparr>validation_result := ''Match''\<rparr>
      else row\<lparr>validation_result := join_str '', '' (spec_reasons row),
               validation_status := ''INVALID''\<rparr>)
   \<and> (validate_invoices invoices_df po_df = (after, Inr report) \<longrightarrow>
        (\<forall>r \<in> set report.
           validation_result r
             = (if spec_reasons r = [] then ''Match'' else join_str '', '' (spec_reasons r))
           \<and> validation_status r = (if spec_reasons r = [] then ''VALID'' else ''INVALID'')))"
proof (intro conjI impI ballI)
  show "validate_row row =
     (if spec_reasons row = [] then row\<lparr>validation_result := ''Match''\<rparr>
      else row\<lparr>validation_result := join_str '', '' (spec_reasons row),
               validation_status := ''INVALID''\<rparr>)"
    by (rule validate_row_spec)
next
  fix r
  assume ok: "validate_invoices invoices_df po_df = (after, Inr report)" and r: "r \<in> set report"
  from ok obtain ns ms where
    rep: "report = map (\<lambda>lrow. validate_row (merged_row (fst lrow) (snd lrow)
                            (matched_po (zip (assign_po_number po_df ms) ms) lrow)))
                (zip (assign_inv_number (lines invoices_df) ns) ns)"
    by (rule validate_invoices_Inr)
  from r obtain l n m where m: "r = validate_row (merged_row l n m)"
    unfolding rep by auto
  have v: "validation_status (merged_row l n m) = ''VALID''"
    by (simp add: merged_row_def)
  have s: "spec_reasons r = spec_reasons (merged_row l n m)"
    unfolding m by (rule spec_reasons_validate_row)
  show "validation_result r
          = (if spec_reasons r = [] then ''Match'' else join_str '', '' (spec_reasons r))"
    unfolding s unfolding m validate_row_spec [of "merged_row l n m"] by simp
  show "validation_status r = (if spec_reasons r = [] then ''VALID'' else ''INVALID'')"
    unfolding s unfolding m validate_row_spec [of "merged_row l n m"] using v by simp
qed


theorem classification_fixed_order_witness:
  "snd (validate_invoices sample_invoices sample_pos) = Inr sample_report_rows
   \<and> map spec_reasons sample_report_rows
       = [[], [''Quantity Mismatch'', ''Overbilling''], [''Missing PO'']]
   \<and> map validation_result sample_report_rows
       = [''Match'', ''Quantity Mismatch, Overbilling'', ''Missing PO'']
   \<and> map validation_status sample_report_rows = [''VALID'', ''INVALID'', ''INVALID'']"
proof -
  have a: "snd (validate_invoices sample_invoices sample_pos) = Inr sample_report_rows"
    by (simp add: sample_validation sample_report_rows_def)
  then have v: "validate_invoices sample_invoices sample_pos
             = (fst (validate_invoices sample_invoices sample_pos), Inr sample_report_rows)"
    by (metis prod.collapse)
  have s: "map spec_reasons sample_report_rows
             = [[], [''Quantity Mismatch'', ''Overbilling''], [''Missing PO'']]"
    by (simp add: sample_report_rows_def spec_reasons_def merged_row_def validation_sample_defs)
  from classification_fixed_order [of _ sample_invoices sample_pos _ sample_report_rows] v
  have c: "\<forall>r \<in> set sample_report_rows.
           validation_result r
             = (if spec_reasons r = [] then ''Match'' else join_str '', '' (spec_reasons r))
           \<and> validation_status r = (if spec_reasons r = [] then ''VALID'' else ''INVALID'')"
    by blast
  have "map validation_result sample_report_rows
          = map (\<lambda>r. if spec_reasons r = [] then ''Match'' else join_str '', '' (spec_reasons r))
              sample_report_rows"
    using c by simp
  also have "\<dots> = [''Match'', ''Quantity Mismatch, Overbilling'', ''Missing PO'']"
    using s by (simp add: sample_report_rows_def)
  finally have r: "map validation_result sample_report_rows
       = [''Match'', ''Quantity Mismatch, Overbilling'', ''Missing PO'']" .
  have "map validation_status sample_report_rows
          = map (\<lambda>r. if spec_reasons r = [] then ''VALID'' else ''INVALID'') sample_report_rows"
    using c by simp
  also have "\<dots> = [''VALID'', ''INVALID'', ''INVALID'']"
    using s by (simp add: sample_report_rows_def)
  finally have t: "map validation_status sample_report_rows = [''VALID'', ''INVALID'', ''INVALID'']" .
  from a s r t show ?thesis by blast
qed


subsection \<open>Mutation of the arguments\<close>

text \<open>
  C10. \<^verbatim>\<open>validate_invoices\<close> mutates its arguments in place. When it is called on an
  invoices frame with a column \<^verbatim>\<open>invoice_number\<close> and \<^verbatim>\<open>astype(int)\<close> succeeds on both
  frames (the \<open>i\<close>-th invoice number becoming \<open>ns ! i\<close>, the \<open>j\<close>-th purchase-order
  number \<open>ms ! j\<close>), the caller's invoices frame has that column renamed to
  \<^verbatim>\<open>invoice_number_inv\<close> and, in every row, the invoice number replaced by its integer
  and no other cell changed; the caller's purchase-order frame has, in every row, the
  invoice number replaced by its integer and no other cell changed. This holds whether
  the merge that follows returns or raises.
\<close>

theorem arguments_mutated_in_place:
  assumes col: "number_column invoices_df = ''invoice_number''"
      and ns: "map astype_int (map inv_invoice_number (lines invoices_df)) = map Inr ns"
      and ms: "map astype_int (map po_invoice_number po_df) = map Inr ms"
  shows "number_column (fst (fst (validate_invoices invoices_df po_df))) = ''invoice_number_inv''
       \<and> length (lines (fst (fst (validate_invoices invoices_df po_df))))
           = length (lines invoices_df)
       \<and> (\<forall>i < length (lines invoices_df).
             lines (fst (fst (validate_invoices invoices_df po_df))) ! i
               = (lines invoices_df ! i)\<lparr>inv_invoice_number := PyInt (ns ! i)\<rparr>)
       \<and> length (snd (fst (validate_invoices invoices_df po_df))) = length po_df
       \<and> (\<forall>j < length po_df.
             snd (fst (validate_invoices invoices_df po_df)) ! j
               = (po_df ! j)\<lparr>po_invoice_number := PyInt (ms ! j)\<rparr>)"
proof -
  from ns have ns': "astype_int_column (map inv_invoice_number (lines invoices_df)) = Inr ns"
    by (simp add: astype_int_column_iff)
  from ms have ms': "astype_int_column (map po_invoice_number po_df) = Inr ms"
    by (simp add: astype_int_column_iff)
  from astype_int_column_length [OF ns'] have ln: "length ns = length (lines invoices_df)" by simp
  from astype_int_column_length [OF ms'] have lm: "length ms = length po_df" by simp
  have after: "fst (validate_invoices invoices_df po_df)
          = (invoices_df\<lparr>lines := assign_inv_number (lines invoices_df) ns,
                         number_column := ''invoice_number_inv''\<rparr>,
             assign_po_number po_df ms)"
    using col ns' ms' by (simp add: validate_invoices_def Let_def split: sum.splits)
  show ?thesis
    unfolding after
    using ln lm
    by (simp add: assign_inv_number_length assign_inv_number_nth assign_po_number_length
        assign_po_number_nth)
qed

theorem arguments_mutated_in_place_witness:
  "number_column sample_invoices = ''invoice_number''
   \<and> map astype_int (map inv_invoice_number (lines sample_invoices)) = map Inr [1001, 1002, 1003]
   \<and> map astype_int (map po_invoice_number sample_pos) = map Inr [1002, 1001, 1003]
   \<and> number_column (fst (fst (validate_invoices sample_invoices sample_pos)))
       = ''invoice_number_inv''
   \<and> lines (fst (fst (validate_invoices sample_invoices sample_pos))) ! 2
       = (lines sample_invoices ! 2)\<lparr>inv_invoice_number := PyInt 1003\<rparr>
   \<and> snd (fst (validate_invoices sample_invoices sample_pos)) ! 0
       = (sample_pos ! 0)\<lparr>po_invoice_number := PyInt 1002\<rparr>"
proof -
  have a: "number_column sample_invoices = ''invoice_number''"
    by (simp add: sample_invoices_def)
  have b: "map astype_int (map inv_invoice_number (lines sample_invoices))
             = map Inr [1001, 1002, 1003]"
    by (simp add: validation_sample_defs)
  have c: "map astype_int (map po_invoice_number sample_pos) = map Inr [1002, 1001, 1003]"
    by (simp add: validation_sample_defs)
  have l: "length (lines sample_invoices) = 3" "length sample_pos = 3"
    by (simp_all add: validation_sample_defs)
  from arguments_mutated_in_place [OF a b c] l a b c show ?thesis by simp
qed


subsection \<open>Duplicate join keys\<close>

text \<open>
  C9. The merge of \<^verbatim>\<open>validate_invoices\<close> is validated as one-to-one on both sides.
  Whenever two invoice lines share (\<^verbatim>\<open>invoice_number\<close>, \<^verbatim>\<open>order_id\<close>,
  \<^verbatim>\<open>customer_name\<close>), or two purchase orders do, the call ends with an exception instead of
  a report; when both \<^verbatim>\<open>astype(int)\<close> calls succeed that exception is the MergeError.
  The rows that \<^verbatim>\<open>analyze_invoices\<close> writes for one parsed invoice share the three fields,
  so a frame that holds the rows of an invoice with two or more line items makes
  \<^verbatim>\<open>validate_invoices\<close> fail.
\<close>

theorem duplicate_keys_fail:
  "(\<not> distinct (invoice_keys (lines invoices_df)) \<or> \<not> distinct (po_keys po_df) \<longrightarrow>
      isl (snd (validate_invoices invoices_df po_df)))
   \<and> (number_column invoices_df = ''invoice_number''
        \<and> astype_int_column (map inv_invoice_number (lines invoices_df)) = Inr ns
        \<and> astype_int_column (map po_invoice_number po_df) = Inr ms
        \<and> (\<not> distinct (invoice_keys (lines invoices_df)) \<or> \<not> distinct (po_keys po_df)) \<longrightarrow>
      snd (validate_invoices invoices_df po_df) = Inl MergeError)
   \<and> (2 \<le> length (get_default (pi_item_details parsed) [])
        \<and> lines invoices_df = before @ flatten_items pdf_file parsed @ after \<longrightarrow>
      isl (snd (validate_invoices invoices_df po_df)))"
proof -
  have merge: "snd (validate_invoices invoices_df po_df) = Inl MergeError"
    if col: "number_column invoices_df = ''invoice_number''"
      and ns: "astype_int_column (map inv_invoice_number (lines invoices_df)) = Inr ns"
      and ms: "astype_int_column (map po_invoice_number po_df) = Inr ms"
      and dup: "\<not> distinct (invoice_keys (lines invoices_df)) \<or> \<not> distinct (po_keys po_df)"
    for ns ms
  proof -
    from dup have "\<not> distinct (map left_key (zip (assign_inv_number (lines invoices_df) ns) ns))
        \<or> \<not> distinct (map right_key (zip (assign_po_number po_df ms) ms))"
      unfolding invoice_keys_left [OF ns] po_keys_right [OF ms] distinct_tag_keys .
    then have "merge_left_one_to_one (zip (assign_inv_number (lines invoices_df) ns) ns)
                 (zip (assign_po_number po_df ms) ms) = Inl MergeError"
      by (auto simp: merge_left_one_to_one_def)
    with col ns ms show ?thesis by (simp add: validate_invoices_def Let_def)
  qed
  have fails: "isl (snd (validate_invoices invoices_df po_df))"
    if dup: "\<not> distinct (invoice_keys (lines invoices_df)) \<or> \<not> distinct (po_keys po_df)"
  proof (cases "number_column invoices_df = ''invoice_number''")
    case False
    then show ?thesis by (simp add: validate_invoices_def)
  next
    case col: True
    show ?thesis
    proof (cases "astype_int_column (map inv_invoice_number (lines invoices_df))")
      case (Inl e)
      with col show ?thesis by (simp add: validate_invoices_def)
    next
      case ns: (Inr ns)
      show ?thesis
      proof (cases "astype_int_column (map po_invoice_number po_df)")
        case (Inl e)
        with col ns show ?thesis by (simp add: validate_invoices_def Let_def)
      next
        case ms: (Inr ms)
        from merge [OF col ns ms dup] show ?thesis by simp
      qed
    qed
  qed
  have items: "\<not> distinct (invoice_keys (lines invoices_df))"
    if two: "2 \<le> length (get_default (pi_item_details parsed) [])"
      and rows: "lines invoices_df = before @ flatten_items pdf_file parsed @ after"
  proof -
    from two obtain a b rest where "get_default (pi_item_details parsed) [] = a # b # rest"
      by (cases "get_default (pi_item_details parsed) []"; cases "tl (get_default (pi_item_details parsed) [])")
         auto
    then have "invoice_keys (flatten_items pdf_file parsed)
        = (astype_int (pi_invoice_number parsed), pi_order_id parsed, pi_customer_name parsed)
          # (astype_int (pi_invoice_number parsed), pi_order_id parsed, pi_customer_name parsed)
          # invoice_keys (map (invoice_copy pdf_file parsed) rest)"
      by (simp add: flatten_items_def invoice_keys_def invoice_copy_def)
    then have "\<not> distinct (invoice_keys (flatten_items pdf_file parsed))" by simp
    then show ?thesis unfolding rows by (simp add: invoice_keys_def)
  qed
  from merge fails items show ?thesis by blast
qed


theorem duplicate_keys_fail_witness:
  "lines two_item_invoices = [] @ flatten_items ''a.pdf'' sample_parsed @ []
   \<and> 2 \<le> length (get_default (pi_item_details sample_parsed) [])
   \<and> \<not> distinct (invoice_keys (lines two_item_invoices))
   \<and> number_column two_item_invoices = ''invoice_number''
   \<and> astype_int_column (map inv_invoice_number (lines two_item_invoices)) = Inr [36258, 36258]
   \<and> astype_int_column (map po_invoice_number sample_pos) = Inr [1002, 1001, 1003]
   \<and> snd (validate_invoices two_item_invoices sample_pos) = Inl MergeError"
proof -
  have a: "lines two_item_invoices = [] @ flatten_items ''a.pdf'' sample_parsed @ []"
    by (simp add: two_item_invoices_def)
  have b: "2 \<le> length (get_default (pi_item_details sample_parsed) [])"
    by (simp add: sample_parsed_def get_default_def)
  have c: "\<not> distinct (invoice_keys (lines two_item_invoices))"
    by (simp add: two_item_invoices_def flatten_items_def sample_parsed_def get_default_def
        invoice_keys_def invoice_copy_def)
  have d: "number_column two_item_invoices = ''invoice_number''"
    by (simp add: two_item_invoices_def)
  have e: "astype_int_column (map inv_invoice_number (lines two_item_invoices))
             = Inr [36258, 36258]"
    by (simp add: two_item_invoices_def flatten_items_def sample_parsed_def get_default_def
        invoice_copy_def)
  have f: "astype_int_column (map po_invoice_number sample_pos) = Inr [1002, 1001, 1003]"
    by (simp add: sample_pos_def)
  from duplicate_keys_fail [of two_item_invoices sample_pos "[36258, 36258]" "[1002, 1001, 1003]"
         sample_parsed "[]" "''a.pdf''" "[]"] c d e f
  have "snd (validate_invoices two_item_invoices sample_pos) = Inl MergeError"
    by blast
  with a b c d e f show ?thesis by blast
qed


section \<open>Properties of the batch extraction\<close>

lemma analyze_loop_extracted:
  "extracted_rows service decode extract_raw_text pdf_folder pre st rows = Some (st1, rows1) \<Longrightarrow>
     analyze_loop service decode extract_raw_text pdf_folder (pre @ rest) st rows
       = analyze_loop service decode extract_raw_text pdf_folder rest st1 rows1"
proof (induction pre arbitrary: st rows)
  case Nil
  then show ?case by simp
next
  case (Cons pdf_file pre)
  show ?case
  proof (cases "endswith pdf_file ''.pdf''")
    case False
    with Cons show ?thesis by simp
  next
    case True
    with Cons.prems obtain st' parsed where
      p: "parse_invoice_with_genai service decode st
            (extract_raw_text (os_path_join pdf_folder pdf_file)) = (st', Inr (Some parsed))"
      and e: "extracted_rows service decode extract_raw_text pdf_folder pre st'
                (rows @ flatten_items pdf_file parsed) = Some (st1, rows1)"
      by (auto split: prod.splits sum.splits option.splits)
    from Cons.IH [OF e] True p show ?thesis by (simp add: Let_def)
  qed
qed


text \<open>
  When every request for a prompt fails, a client with at least one key exhausts its
  attempts and \<^verbatim>\<open>generate_content\<close> returns \<^verbatim>\<open>None\<close>.
\<close>

lemma generate_content_exhausted:
  assumes "api_keys c \<noteq> []"
      and "\<forall>k key. service k key prompt = None"
  shows "snd (generate_content service prompt n (c, k)) = Inr None"
  using assms(1)
proof (induction n arbitrary: c k)
  case 0
  then show ?case by simp
next
  case (Suc n)
  from Suc.prems obtain c' where r: "rotate_key c = Inr c'" and k: "api_keys c' \<noteq> []"
    by (auto simp: rotate_key_def)
  from Suc.IH [OF k] r assms(2) show ?case by simp
qed


subsection \<open>Exhaustion of the extraction service\<close>

text \<open>
  The loop of \<^verbatim>\<open>analyze_invoices\<close> answers a parser result \<^verbatim>\<open>None\<close> with \<^verbatim>\<open>break\<close>. In
  the folder \<^verbatim>\<open>a.pdf\<close>, \<^verbatim>\<open>notes.txt\<close>, \<^verbatim>\<open>b.pdf\<close>, \<^verbatim>\<open>c.pdf\<close>, where the service fails
  for \<^verbatim>\<open>b.pdf\<close> only, the rows written are those of \<^verbatim>\<open>a.pdf\<close>: the rows of \<^verbatim>\<open>c.pdf\<close>,
  which the same client extracts when the folder holds that file alone, are absent too.
\<close>

theorem exhaustion_stops_batch_counterexample:
  "analyze_invoices sample_service sample_decode sample_extract ''data/Invoice/'' sample_folder
     sample_client
     = ((\<lparr>api_keys = [''key-1'', ''key-2''], current_key_index = 1\<rparr>, 4),
        Inr (flatten_items ''a.pdf'' sample_parsed))
   \<and> analyze_invoices sample_service sample_decode sample_extract ''data/Invoice/'' [''c.pdf'']
       sample_client
       = ((\<lparr>api_keys = [''key-1'', ''key-2''], current_key_index = 0\<rparr>, 1),
          Inr (flatten_items ''c.pdf'' sample_parsed))"
  using sample_parse_a sample_parse_b sample_parse_c
  by (simp add: analyze_invoices_def sample_folder_def sample_paths sample_extract_def Let_def)


text \<open>
  C7, amended. When the parser returns \<^verbatim>\<open>None\<close> for a PDF of the folder, every PDF listed
  before it having been extracted, \<^verbatim>\<open>analyze_invoices\<close> does not raise: it stops at that
  file and writes exactly the rows of the PDFs listed before it. The affected invoice and
  every file listed after it contribute no row.
\<close>

theorem exhaustion_stops_batch:
  assumes pre: "extracted_rows service decode extract_raw_text pdf_folder pre st [] = Some (st1, rows)"
      and pdf: "endswith pdf_file ''.pdf''"
      and none: "parse_invoice_with_genai service decode st1
                   (extract_raw_text (os_path_join pdf_folder pdf_file)) = (st2, Inr None)"
  shows "analyze_invoices service decode extract_raw_text pdf_folder (pre @ pdf_file # post) st
           = (st2, Inr rows)"
  unfolding analyze_invoices_def analyze_loop_extracted [OF pre]
  using pdf none by (simp add: Let_def)


theorem exhaustion_stops_batch_witness:
  "extracted_rows sample_service sample_decode sample_extract ''data/Invoice/''
     [''a.pdf'', ''notes.txt''] sample_client []
     = Some ((\<lparr>api_keys = [''key-1'', ''key-2''], current_key_index = 0\<rparr>, 1),
             flatten_items ''a.pdf'' sample_parsed)
   \<and> endswith ''b.pdf'' ''.pdf''
   \<and> parse_invoice_with_genai sample_service sample_decode
        (\<lparr>api_keys = [''key-1'', ''key-2''], current_key_index = 0\<rparr>, 1)
        (sample_extract (os_path_join ''data/Invoice/'' ''b.pdf''))
       = ((\<lparr>api_keys = [''key-1'', ''key-2''], current_key_index = 1\<rparr>, 4), Inr None)
   \<and> analyze_invoices sample_service sample_decode sample_extract ''data/Invoice/''
        ([''a.pdf'', ''notes.txt''] @ ''b.pdf'' # [''c.pdf'']) sample_client
       = ((\<lparr>api_keys = [''key-1'', ''key-2''], current_key_index = 1\<rparr>, 4),
          Inr (flatten_items ''a.pdf'' sample_parsed))"
proof -
  have a: "extracted_rows sample_service sample_decode sample_extract ''data/Invoice/''
     [''a.pdf'', ''notes.txt''] sample_client []
     = Some ((\<lparr>api_keys = [''key-1'', ''key-2''], current_key_index = 0\<rparr>, 1),
             flatten_items ''a.pdf'' sample_parsed)"
    using sample_parse_a by (simp add: sample_paths sample_extract_def)
  have b: "endswith ''b.pdf'' ''.pdf''" by (rule sample_paths)
  have c: "parse_invoice_with_genai sample_service sample_decode
        (\<lparr>api_keys = [''key-1'', ''key-2''], current_key_index = 0\<rparr>, 1)
        (sample_extract (os_path_join ''data/Invoice/'' ''b.pdf''))
       = ((\<lparr>api_keys = [''key-1'', ''key-2''], current_key_index = 1\<rparr>, 4), Inr None)"
    using sample_parse_b by (simp add: sample_paths sample_extract_def)
  from exhaustion_stops_batch [OF a b c, of "[''c.pdf'']"] a b c show ?thesis by blast
qed


end
